theory Spec2Isabelle
  imports Complex_Main "HOL-Library.Sublist" "HOL-Library.Char_ord" "HOL-Library.List_Lexorder"
begin

section \<open>Data model (learning\_engine.py)\<close>

text \<open>
  Python floats are modelled as \<^typ>\<open>real\<close> (exact arithmetic, no rounding): a product such
  as 3.0 * 1.3 is 3.9 here and the double next above it in the program, and a comparison of a
  computed quantity with a threshold it meets exactly, or within rounding distance, can come out
  the other way in the program. The statements below are about quantities clear of the
  thresholds, or say so. Python ints are modelled as
  \<^typ>\<open>int\<close>, \<open>None\<close>-able fields as \<open>option\<close>. Timestamps, ISO strings in the source,
  are seconds as \<^typ>\<open>int\<close>; \<open>datetime.now()\<close> is an argument of the operation that reads it.
  An exception is a value \<open>Inl e\<close>.
\<close>

datatype py_error = ZeroDivisionError

datatype outcome = PENDING | WIN | LOSS | SCRATCH | EXPIRED

text \<open>
  The narrative strings produced by the analysis are modelled by their tag (the text before the
  colon); the only formatted number, the favourable distance of a reversal, is kept.
\<close>

datatype failure_reason =
    REVERSAL real
  | STOP_TOO_TIGHT
  | OPEN_VOLATILITY
  | END_OF_DAY
  | VIX_MISMATCH
  | WEAK_CATALYST
  | THETA_DECAY
  | IV_CRUSH_RISK
  | MARKET_CONDITIONS

datatype success_factor =
    QUICK_MOVE
  | FAVORABLE_REGIME
  | HIGH_CONVICTION
  | PROVEN_PATTERN
  | EXCEEDED_TARGET

datatype lesson =
    WIDEN_STOP
  | AVOID_FIRST_30
  | CHECK_VIX
  | LONGER_DATED
  | PARTIAL_PROFITS

datatype improvement =
    IMPROVE_STOP real real
  | IMPROVE_TIME
  | IMPROVE_REGIME
  | IMPROVE_SCORE

text \<open>
  \<open>TradeRecord\<close>, also the shape of a row of the \<open>trades\<close> table. The descriptive fields that no
  operation below reads (symbol, catalyst, catalyst\_source, catalyst\_category, vix\_at\_entry,
  spy\_trend, sector\_momentum, strike, expiration, delta\_at\_entry, conviction) are left out.
\<close>

record TradeRecord =
  trade_id :: string
  pattern_name :: string
  direction :: string
  entry_price :: real
  entry_time :: int
  target_price :: real
  stop_price :: real
  vix_regime :: string
  time_of_day :: string
  day_of_week :: "int option"
  days_to_expiry :: int
  option_type :: "string option"
  iv_at_entry :: "real option"
  pattern_score :: real
  pattern_win_rate_at_entry :: real
  outcome :: outcome
  exit_price :: "real option"
  exit_time :: "int option"
  actual_return :: "real option"
  max_favorable :: "real option"
  max_adverse :: "real option"
  time_to_resolution :: "int option"
  failure_reason :: "failure_reason list"
  lesson_learned :: "lesson list"
  suggested_improvements :: "improvement list"

text \<open>
  \<open>PatternEvolution\<close>. The multiplier dictionaries are maps; the weekday keys, integers in memory
  and strings after the JSON round trip of the store, are integers here. The return buckets, the
  hit-price lists, the adjustment history and \<open>last_updated\<close> are left out: nothing below reads
  them.
\<close>

record PatternEvolution =
  name :: string
  version :: int
  keywords_p :: "string list"
  p_direction :: string
  symbols :: "string list"
  base_weight :: real
  best_time_of_day :: "string option"
  worst_time_of_day :: "string option"
  time_multipliers :: "string \<rightharpoonup> real"
  best_vix_regime :: "string option"
  vix_multipliers :: "string \<rightharpoonup> real"
  day_multipliers :: "int \<rightharpoonup> real"
  optimal_stop_pct :: real
  optimal_target_pct :: real
  optimal_hold_hours :: int
  total_trades :: int
  wins :: int
  losses :: int
  scratches :: int
  total_return :: real

definition win_rate :: "PatternEvolution \<Rightarrow> real" where
  "win_rate p = (if total_trades p = 0 then 0.5 else real_of_int (wins p) / real_of_int (total_trades p))"

definition avg_return :: "PatternEvolution \<Rightarrow> real" where
  "avg_return p = (if total_trades p = 0 then 0 else total_return p / real_of_int (total_trades p))"

text \<open>
  \<open>effective_weight\<close>: the products are exact here and rounded in the program (3.0 * 1.3 is the
  double next above 3.9).
\<close>

definition effective_weight :: "PatternEvolution \<Rightarrow> real" where
  "effective_weight p =
     (let base = base_weight p in
      if total_trades p \<ge> 10 then
        (if win_rate p > 0.65 then base * 1.3
         else if win_rate p > 0.55 then base * 1.1
         else if win_rate p < 0.40 then base * 0.7
         else if win_rate p < 0.50 then base * 0.85
         else base)
      else base)"


section \<open>Pattern matcher (intelligence.py)\<close>

text \<open>
  \<open>str.lower\<close> on ASCII letters; other characters are unchanged, so the matcher is modelled for
  ASCII headlines only (\<open>str.lower\<close> also folds the letters outside ASCII).
\<close>

definition lower_char :: "char \<Rightarrow> char" where
  "lower_char c =
     (case map_of (zip ''ABCDEFGHIJKLMNOPQRSTUVWXYZ'' ''abcdefghijklmnopqrstuvwxyz'') c of
        None \<Rightarrow> c | Some d \<Rightarrow> d)"

definition lower :: "string \<Rightarrow> string" where
  "lower s = map lower_char s"

text \<open>\<open>kw in text\<close>: \<open>kw\<close> occurs as a contiguous substring.\<close>

fun contains :: "string \<Rightarrow> string \<Rightarrow> bool" where
  "contains kw [] = (kw = [])"
| "contains kw (c # cs) = (prefix kw (c # cs) \<or> contains kw cs)"

record market_context =
  ctx_vix_regime :: "string option"
  ctx_time_of_day :: "string option"
  ctx_day_of_week :: "int option"

record match_result =
  m_pattern :: string
  m_direction :: string
  m_symbols :: "string list"
  m_score :: real
  m_weight :: real
  m_win_rate :: real
  m_optimal_stop :: real
  m_optimal_target :: real
  m_version :: int
  m_total_trades :: int

text \<open>\<open>sum(1 for kw in pattern.keywords if kw in text_lower)\<close>\<close>

definition hits :: "PatternEvolution \<Rightarrow> string \<Rightarrow> nat" where
  "hits p text_lower = length (filter (\<lambda>kw. contains kw text_lower) (keywords_p p))"

definition min_hits :: "PatternEvolution \<Rightarrow> nat" where
  "min_hits p = min 2 (length (keywords_p p))"

text \<open>
  \<open>d.get(k)\<close> used as a condition: the key is present and its value is not zero.
\<close>

definition truthy_get :: "('k \<rightharpoonup> real) \<Rightarrow> 'k \<Rightarrow> real option" where
  "truthy_get d k = (case d k of None \<Rightarrow> None | Some v \<Rightarrow> if v = 0 then None else Some v)"

definition apply_context :: "PatternEvolution \<Rightarrow> market_context option \<Rightarrow> real \<Rightarrow> real" where
  "apply_context p ctx score =
     (case ctx of
        None \<Rightarrow> score
      | Some c \<Rightarrow>
          (let s1 = (case ctx_vix_regime c of
                       None \<Rightarrow> score
                     | Some r \<Rightarrow> if r = [] then score
                                else (case truthy_get (vix_multipliers p) r of
                                        None \<Rightarrow> score | Some m \<Rightarrow> score * m));
               s2 = (case ctx_time_of_day c of
                       None \<Rightarrow> s1
                     | Some t \<Rightarrow> if t = [] then s1
                                else (case truthy_get (time_multipliers p) t of
                                        None \<Rightarrow> s1 | Some m \<Rightarrow> s1 * m));
               s3 = (case ctx_day_of_week c of
                       None \<Rightarrow> s2
                     | Some d \<Rightarrow> (case truthy_get (day_multipliers p) d of
                                    None \<Rightarrow> s2 | Some m \<Rightarrow> s2 * m))
           in s3))"

definition make_match :: "PatternEvolution \<Rightarrow> real \<Rightarrow> match_result" where
  "make_match p score =
     \<lparr> m_pattern = name p, m_direction = p_direction p, m_symbols = symbols p,
       m_score = score, m_weight = effective_weight p, m_win_rate = win_rate p,
       m_optimal_stop = optimal_stop_pct p, m_optimal_target = optimal_target_pct p,
       m_version = version p, m_total_trades = total_trades p \<rparr>"

text \<open>
  The body of the loop of \<open>PatternMatcher.match\<close> for one pattern: \<open>Inr None\<close> when the pattern
  does not fire, \<open>Inr (Some m)\<close> when it does, and the exception of the division
  \<open>hits / len(pattern.keywords)\<close> when the pattern has no keyword.
\<close>

definition match_one ::
  "PatternEvolution \<Rightarrow> string \<Rightarrow> market_context option \<Rightarrow> py_error + match_result option" where
  "match_one p text_lower ctx =
     (if hits p text_lower \<ge> min_hits p then
        (if length (keywords_p p) = 0 then Inl ZeroDivisionError
         else Inr (Some (make_match p
                (apply_context p ctx
                   ((real (hits p text_lower) / real (length (keywords_p p))) * effective_weight p)))))
      else Inr None)"

fun match_loop ::
  "PatternEvolution list \<Rightarrow> string \<Rightarrow> market_context option \<Rightarrow> match_result list
     \<Rightarrow> py_error + match_result list" where
  "match_loop [] text_lower ctx matches = Inr matches"
| "match_loop (p # ps) text_lower ctx matches =
     (case match_one p text_lower ctx of
        Inl e \<Rightarrow> Inl e
      | Inr None \<Rightarrow> match_loop ps text_lower ctx matches
      | Inr (Some m) \<Rightarrow> match_loop ps text_lower ctx (matches @ [m]))"

text \<open>
  \<open>matches.sort(key=score, reverse=True)\<close> is a stable sort by descending score, as
  \<^const>\<open>sort_key\<close> on the negated score is.
\<close>

definition match_py ::
  "PatternEvolution list \<Rightarrow> string \<Rightarrow> market_context option \<Rightarrow> py_error + match_result list" where
  "match_py patterns text ctx =
     (case match_loop patterns (lower text) ctx [] of
        Inl e \<Rightarrow> Inl e
      | Inr matches \<Rightarrow> Inr (sort_key (\<lambda>m. - m_score m) matches))"


section \<open>Persistent store (LearningDatabase)\<close>

text \<open>
  A table is the list of its rows in insertion order. \<open>INSERT OR REPLACE\<close> deletes the row
  that has the same primary key and appends the new row.
\<close>

definition save_trade :: "TradeRecord list \<Rightarrow> TradeRecord \<Rightarrow> TradeRecord list" where
  "save_trade rows t = filter (\<lambda>r. trade_id r \<noteq> trade_id t) rows @ [t]"

text \<open>
  \<open>SELECT * FROM trades WHERE pattern_name = ? ORDER BY entry_time DESC LIMIT ?\<close>. The
  parameter is \<open>None\<close> when the caller passes \<open>pattern_name=None\<close>; it is then bound as SQL
  \<open>NULL\<close>, and the comparison \<open>pattern_name = NULL\<close> is true of no row. Rows with equal
  \<open>entry_time\<close> stay in insertion order.
\<close>

definition get_trades_for_pattern :: "TradeRecord list \<Rightarrow> string option \<Rightarrow> nat \<Rightarrow> TradeRecord list" where
  "get_trades_for_pattern rows pn limit =
     (case pn of
        None \<Rightarrow> []
      | Some n \<Rightarrow> take limit (sort_key (\<lambda>t. - entry_time t) (filter (\<lambda>t. pattern_name t = n) rows)))"

definition get_pattern :: "PatternEvolution list \<Rightarrow> string \<Rightarrow> PatternEvolution option" where
  "get_pattern rows n = find (\<lambda>p. name p = n) rows"

definition save_pattern :: "PatternEvolution list \<Rightarrow> PatternEvolution \<Rightarrow> PatternEvolution list" where
  "save_pattern rows p = filter (\<lambda>r. name r \<noteq> name p) rows @ [p]"

text \<open>
  \<open>SELECT name FROM patterns\<close> reads the names from the index of the text primary key, in
  ascending byte order, and \<open>get_pattern\<close> is then called for each name.
\<close>

definition get_all_patterns :: "PatternEvolution list \<Rightarrow> PatternEvolution list" where
  "get_all_patterns rows = List.map_filter (\<lambda>n. get_pattern rows n) (sort (map name rows))"


section \<open>Outcome analysis (AdaptiveLearningEngine)\<close>

text \<open>Truthiness of an optional number: present and not zero.\<close>

definition truthy :: "real option \<Rightarrow> bool" where
  "truthy a = (case a of None \<Rightarrow> False | Some v \<Rightarrow> v \<noteq> 0)"

definition truthy_int :: "int option \<Rightarrow> bool" where
  "truthy_int a = (case a of None \<Rightarrow> False | Some v \<Rightarrow> v \<noteq> 0)"

definition truthy_str :: "string option \<Rightarrow> bool" where
  "truthy_str a = (case a of None \<Rightarrow> False | Some v \<Rightarrow> v \<noteq> [])"

text \<open>\<open>a or b\<close> on an optional number \<open>a\<close>.\<close>

definition py_or :: "real option \<Rightarrow> real \<Rightarrow> real" where
  "py_or a b = (if truthy a then the a else b)"

text \<open>
  \<open>_analyze_failure\<close>. The three distances divide by the entry price, so the stop block raises
  when the entry price is zero.
\<close>

definition stop_reasons :: "TradeRecord \<Rightarrow> py_error + failure_reason list" where
  "stop_reasons t =
     (if truthy (max_adverse t) \<and> stop_price t \<noteq> 0 then
        (if entry_price t = 0 then Inl ZeroDivisionError
         else
           (let stop_distance = \<bar>entry_price t - stop_price t\<bar> / entry_price t;
                adverse_distance = \<bar>entry_price t - the (max_adverse t)\<bar> / entry_price t;
                r1 = (if truthy (max_favorable t) \<and> the (max_favorable t) \<noteq> entry_price t then
                        (let favorable_distance = \<bar>the (max_favorable t) - entry_price t\<bar> / entry_price t
                         in if favorable_distance > 0.01 then [REVERSAL favorable_distance] else [])
                      else []);
                r2 = (if adverse_distance > stop_distance * 0.9 then [STOP_TOO_TIGHT] else [])
            in Inr (r1 @ r2)))
      else Inr [])"

definition context_reasons :: "TradeRecord \<Rightarrow> failure_reason list" where
  "context_reasons t =
     (if time_of_day t = ''OPEN'' \<and> truthy_int (time_to_resolution t) \<and> the (time_to_resolution t) < 30
      then [OPEN_VOLATILITY] else [])
     @ (if time_of_day t = ''CLOSE'' then [END_OF_DAY] else [])
     @ (if vix_regime t = ''HIGH_FEAR'' \<and> direction t = ''LONG'' then [VIX_MISMATCH]
        else if vix_regime t = ''COMPLACENT'' \<and> direction t = ''SHORT'' then [VIX_MISMATCH]
        else [])
     @ (if pattern_score t < 1.5 then [WEAK_CATALYST] else [])
     @ (if truthy_str (option_type t) \<and> days_to_expiry t \<noteq> 0 then
          (if days_to_expiry t < 3 then [THETA_DECAY] else [])
          @ (if truthy (iv_at_entry t) \<and> the (iv_at_entry t) > 50 then [IV_CRUSH_RISK] else [])
        else [])"

definition analyze_failure :: "TradeRecord \<Rightarrow> py_error + failure_reason list" where
  "analyze_failure t =
     (case stop_reasons t of
        Inl e \<Rightarrow> Inl e
      | Inr rs \<Rightarrow>
          (let reasons = rs @ context_reasons t
           in Inr (if reasons = [] then [MARKET_CONDITIONS] else reasons)))"

definition analyze_success :: "TradeRecord \<Rightarrow> success_factor list" where
  "analyze_success t =
     (if truthy_int (time_to_resolution t) \<and> the (time_to_resolution t) < 60 then [QUICK_MOVE] else [])
     @ (if vix_regime t = ''NORMAL'' \<and> direction t = ''LONG'' then [FAVORABLE_REGIME] else [])
     @ (if pattern_score t \<ge> 2.0 then [HIGH_CONVICTION] else [])
     @ (if pattern_win_rate_at_entry t \<ge> 0.6 then [PROVEN_PATTERN] else [])
     @ (if truthy (max_favorable t) then
          (let target_distance = \<bar>target_price t - entry_price t\<bar>;
               actual_move = \<bar>the (max_favorable t) - entry_price t\<bar>
           in if actual_move > target_distance * 1.2 then [EXCEEDED_TARGET] else [])
        else [])"

text \<open>
  \<open>_extract_lessons\<close> and \<open>_suggest_improvements\<close> run \<open>_analyze_failure\<close> again, which gives
  the same list, and map each reason through an \<open>elif\<close> chain on its tag.
\<close>

fun lesson_of :: "failure_reason \<Rightarrow> lesson list" where
  "lesson_of STOP_TOO_TIGHT = [WIDEN_STOP]"
| "lesson_of OPEN_VOLATILITY = [AVOID_FIRST_30]"
| "lesson_of VIX_MISMATCH = [CHECK_VIX]"
| "lesson_of THETA_DECAY = [LONGER_DATED]"
| "lesson_of (REVERSAL d) = [PARTIAL_PROFITS]"
| "lesson_of r = []"

definition extract_lessons :: "failure_reason list \<Rightarrow> lesson list" where
  "extract_lessons reasons = concat (map lesson_of reasons)"

fun improvement_of :: "TradeRecord \<Rightarrow> failure_reason \<Rightarrow> improvement list" where
  "improvement_of t STOP_TOO_TIGHT =
     (let current_stop = \<bar>entry_price t - stop_price t\<bar> / entry_price t
      in [IMPROVE_STOP current_stop (current_stop * 1.25)])"
| "improvement_of t OPEN_VOLATILITY = [IMPROVE_TIME]"
| "improvement_of t VIX_MISMATCH = [IMPROVE_REGIME]"
| "improvement_of t WEAK_CATALYST = [IMPROVE_SCORE]"
| "improvement_of t r = []"

definition suggest_improvements :: "TradeRecord \<Rightarrow> failure_reason list \<Rightarrow> improvement list" where
  "suggest_improvements t reasons = concat (map (improvement_of t) reasons)"

record analysis =
  a_trade_id :: string
  a_pattern :: string
  a_outcome :: outcome
  a_return :: "real option"
  a_failure_reasons :: "failure_reason list"
  a_success_factors :: "success_factor list"
  a_lessons :: "lesson list"
  a_improvements :: "improvement list"

definition analyze_trade_outcome :: "TradeRecord \<Rightarrow> py_error + analysis" where
  "analyze_trade_outcome t =
     (let a = \<lparr> a_trade_id = trade_id t, a_pattern = pattern_name t, a_outcome = outcome t,
                a_return = actual_return t, a_failure_reasons = [], a_success_factors = [],
                a_lessons = [], a_improvements = [] \<rparr>
      in if outcome t = WIN then Inr (a\<lparr>a_success_factors := analyze_success t\<rparr>)
         else if outcome t = LOSS then
           (case analyze_failure t of
              Inl e \<Rightarrow> Inl e
            | Inr reasons \<Rightarrow>
                Inr (a\<lparr>a_failure_reasons := reasons,
                       a_lessons := extract_lessons reasons,
                       a_improvements := suggest_improvements t reasons\<rparr>))
         else Inr a)"


section \<open>Learning pass (AdaptiveLearningEngine)\<close>

text \<open>
  A \<open>defaultdict(list)\<close> filled in a loop: an association list in order of first insertion,
  which is the order Python iterates the dictionary in.
\<close>

fun group_append :: "('k \<times> 'v list) list \<Rightarrow> 'k \<Rightarrow> 'v \<Rightarrow> ('k \<times> 'v list) list" where
  "group_append [] k v = [(k, [v])]"
| "group_append ((k', vs) # rest) k v =
     (if k' = k then (k', vs @ [v]) # rest else (k', vs) # group_append rest k v)"

definition group_outcomes :: "(TradeRecord \<Rightarrow> 'k option) \<Rightarrow> TradeRecord list \<Rightarrow> ('k \<times> bool list) list" where
  "group_outcomes key trades =
     foldl (\<lambda>acc t. case key t of
                       None \<Rightarrow> acc
                     | Some k \<Rightarrow> if outcome t = WIN \<or> outcome t = LOSS
                                 then group_append acc k (outcome t = WIN) else acc)
           [] trades"

text \<open>\<open>sum(outcomes) / len(outcomes)\<close> on a list of booleans.\<close>

definition rate_of :: "bool list \<Rightarrow> real" where
  "rate_of outcomes = real (length (filter (\<lambda>b. b) outcomes)) / real (length outcomes)"

text \<open>
  The statistics of the buckets that have at least \<open>min_n\<close> trades: key, win rate, number of
  trades.
\<close>

definition bucket_stats :: "nat \<Rightarrow> ('k \<times> bool list) list \<Rightarrow> ('k \<times> real \<times> nat) list" where
  "bucket_stats min_n groups =
     map (\<lambda>(k, outcomes). (k, rate_of outcomes, length outcomes))
         (filter (\<lambda>(k, outcomes). length outcomes \<ge> min_n) groups)"

text \<open>\<open>max(keys, key=f)\<close> and \<open>min(keys, key=f)\<close> return the first extremal element.\<close>

fun py_max_by :: "('a \<Rightarrow> real) \<Rightarrow> 'a list \<Rightarrow> 'a option" where
  "py_max_by f [] = None"
| "py_max_by f (x # xs) = Some (foldl (\<lambda>b y. if f y > f b then y else b) x xs)"

fun py_min_by :: "('a \<Rightarrow> real) \<Rightarrow> 'a list \<Rightarrow> 'a option" where
  "py_min_by f [] = None"
| "py_min_by f (x # xs) = Some (foldl (\<lambda>b y. if f y < f b then y else b) x xs)"

definition multipliers_of :: "('k \<times> real \<times> nat) list \<Rightarrow> ('k \<times> real) list" where
  "multipliers_of stats =
     (let avg_win_rate = sum_list (map (\<lambda>(k, r, n). r) stats) / real (length stats)
      in map (\<lambda>(k, r, n). (k, if avg_win_rate > 0 then r / avg_win_rate else 1)) stats)"

record context_analysis =
  best :: "string option"
  worst :: "string option"
  best_win_rate :: real
  multipliers :: "(string \<times> real) list"
  confidence :: real

definition no_context_analysis :: context_analysis where
  "no_context_analysis = \<lparr> best = None, worst = None, best_win_rate = 0, multipliers = [], confidence = 0 \<rparr>"

text \<open>
  \<open>_analyze_by_vix\<close> and \<open>_analyze_by_time\<close> are the same procedure on a different column, with
  bucket minimum 3 and divisor 20, respectively 2 and 15.
\<close>

definition analyze_by :: "(TradeRecord \<Rightarrow> string) \<Rightarrow> nat \<Rightarrow> real \<Rightarrow> TradeRecord list \<Rightarrow> context_analysis" where
  "analyze_by col min_n denom trades =
     (let groups = group_outcomes (\<lambda>t. if col t \<noteq> [] then Some (col t) else None) trades
      in if groups = [] then no_context_analysis
         else
           (let stats = bucket_stats min_n groups
            in if stats = [] then no_context_analysis
               else
                 (let b = py_max_by (\<lambda>(k, r, n). r) stats;
                      w = py_min_by (\<lambda>(k, r, n). r) stats;
                      total = sum_list (map (\<lambda>(k, r, n). n) stats)
                  in \<lparr> best = map_option fst b,
                       worst = map_option fst w,
                       best_win_rate = (case b of None \<Rightarrow> 0 | Some (k, r, n) \<Rightarrow> r),
                       multipliers = multipliers_of stats,
                       confidence = min 1 (real total / denom) \<rparr>)))"

definition analyze_by_vix :: "TradeRecord list \<Rightarrow> context_analysis" where
  "analyze_by_vix trades = analyze_by vix_regime 3 20 trades"

definition analyze_by_time :: "TradeRecord list \<Rightarrow> context_analysis" where
  "analyze_by_time trades = analyze_by time_of_day 2 15 trades"

definition analyze_by_day :: "TradeRecord list \<Rightarrow> (int \<times> real) list" where
  "analyze_by_day trades =
     (let groups = group_outcomes day_of_week trades
      in if groups = [] then []
         else
           (let stats = bucket_stats 2 groups
            in if stats = [] then [] else multipliers_of stats))"

text \<open>\<open>_analyze_stops\<close>\<close>

record stop_analysis =
  optimal_stop :: "real option"
  stop_confidence :: real

definition stop_losses :: "TradeRecord list \<Rightarrow> TradeRecord list" where
  "stop_losses trades =
     filter (\<lambda>t. outcome t = LOSS \<and> truthy (max_adverse t) \<and> entry_price t \<noteq> 0) trades"

definition planned_stop :: "TradeRecord \<Rightarrow> real" where
  "planned_stop t = \<bar>entry_price t - stop_price t\<bar> / entry_price t"

definition adverse_move :: "TradeRecord \<Rightarrow> real" where
  "adverse_move t = \<bar>entry_price t - the (max_adverse t)\<bar> / entry_price t"

definition exceeded_by :: "TradeRecord \<Rightarrow> real" where
  "exceeded_by t = adverse_move t - planned_stop t"

text \<open>
  The test \<open>exceeded_by < 0.005\<close> is one-sided, as written in the source: a loss that closed
  short of its planned stop passes it as well. An excess of exactly 0.005 here (entry 100, stop
  99, adverse excursion 98.5) is a double just below 0.005 in the program, which passes the test.
\<close>

definition tight_stops :: "TradeRecord list \<Rightarrow> TradeRecord list" where
  "tight_stops ls = filter (\<lambda>t. exceeded_by t < 0.005) ls"

text \<open>\<open>statistics.mean\<close> of a non-empty list.\<close>

definition mean :: "real list \<Rightarrow> real" where
  "mean xs = sum_list xs / real (length xs)"

definition analyze_stops :: "TradeRecord list \<Rightarrow> stop_analysis" where
  "analyze_stops trades =
     (let ls = stop_losses trades
      in if length ls < 3 then \<lparr> optimal_stop = None, stop_confidence = 0 \<rparr>
         else if real (length (tight_stops ls)) > real (length ls) * 0.5 then
           (let avg_stop = mean (map planned_stop ls);
                suggested_stop = avg_stop * 1.3
            in \<lparr> optimal_stop = Some (min 0.05 suggested_stop),
                 stop_confidence = min 1 (real (length ls) / 10) \<rparr>)
         else if mean (map adverse_move ls) > mean (map planned_stop ls) * 2 then
           \<lparr> optimal_stop = None, stop_confidence = 0.5 \<rparr>
         else \<lparr> optimal_stop = None, stop_confidence = 0 \<rparr>)"

text \<open>\<open>_analyze_targets\<close>\<close>

record target_analysis =
  optimal_target :: "real option"
  target_confidence :: real

definition target_wins :: "TradeRecord list \<Rightarrow> TradeRecord list" where
  "target_wins trades =
     filter (\<lambda>t. outcome t = WIN \<and> truthy (max_favorable t) \<and> entry_price t \<noteq> 0) trades"

definition target_distance :: "TradeRecord \<Rightarrow> real" where
  "target_distance t = \<bar>target_price t - entry_price t\<bar> / entry_price t"

definition max_move :: "TradeRecord \<Rightarrow> real" where
  "max_move t = \<bar>the (max_favorable t) - entry_price t\<bar> / entry_price t"

definition analyze_targets :: "TradeRecord list \<Rightarrow> target_analysis" where
  "analyze_targets trades =
     (let ws = target_wins trades
      in if length ws < 3 then \<lparr> optimal_target = None, target_confidence = 0 \<rparr>
         else
           (let avg_left = mean (map (\<lambda>t. max_move t - target_distance t) ws);
                avg_target = mean (map target_distance ws)
            in if avg_left > 0.01 then
                 \<lparr> optimal_target = Some (min 0.08 (avg_target + avg_left * 0.5)),
                   target_confidence = min 1 (real (length ws) / 10) \<rparr>
               else \<lparr> optimal_target = None, target_confidence = 0 \<rparr>))"


text \<open>
  \<open>learn_from_pattern_history\<close>, one definition for each numbered step of the source. Each step
  returns the mutated pattern and the adjustments it appends to the report. The reason strings
  and the writes to the append-only \<open>learning_log\<close> table are left out.
\<close>

datatype adjustment =
    ADJ_VIX_REGIME "string option" "string option"
  | ADJ_TIME_OF_DAY "string option" "string option"
  | ADJ_STOP_DISTANCE real real
  | ADJ_TARGET_DISTANCE real real
  | ADJ_BASE_WEIGHT real real

definition min_trades_for_learning :: nat where
  "min_trades_for_learning = 5"

definition confidence_threshold :: real where
  "confidence_threshold = 0.7"

definition learn_vix :: "TradeRecord list \<Rightarrow> PatternEvolution \<Rightarrow> PatternEvolution \<times> adjustment list" where
  "learn_vix trades p =
     (let v = analyze_by_vix trades
      in if truthy_str (best v) \<and> confidence v > confidence_threshold then
           (let old_best = best_vix_regime p;
                p' = p\<lparr>best_vix_regime := best v, vix_multipliers := map_of (multipliers v)\<rparr>
            in (p', if old_best \<noteq> best_vix_regime p' then [ADJ_VIX_REGIME old_best (best_vix_regime p')] else []))
         else (p, []))"

definition learn_time :: "TradeRecord list \<Rightarrow> PatternEvolution \<Rightarrow> PatternEvolution \<times> adjustment list" where
  "learn_time trades p =
     (let v = analyze_by_time trades
      in if truthy_str (best v) \<and> confidence v > confidence_threshold then
           (let old_best = best_time_of_day p;
                p' = p\<lparr>best_time_of_day := best v, worst_time_of_day := worst v,
                       time_multipliers := map_of (multipliers v)\<rparr>
            in (p', if old_best \<noteq> best_time_of_day p' then [ADJ_TIME_OF_DAY old_best (best_time_of_day p')] else []))
         else (p, []))"

definition learn_stop :: "TradeRecord list \<Rightarrow> PatternEvolution \<Rightarrow> PatternEvolution \<times> adjustment list" where
  "learn_stop trades p =
     (let sa = analyze_stops trades
      in if truthy (optimal_stop sa) \<and> stop_confidence sa > confidence_threshold then
           (let old_stop = optimal_stop_pct p
            in if \<bar>the (optimal_stop sa) - old_stop\<bar> > 0.005 then
                 (p\<lparr>optimal_stop_pct := the (optimal_stop sa)\<rparr>,
                  [ADJ_STOP_DISTANCE old_stop (the (optimal_stop sa))])
               else (p, []))
         else (p, []))"

definition learn_target :: "TradeRecord list \<Rightarrow> PatternEvolution \<Rightarrow> PatternEvolution \<times> adjustment list" where
  "learn_target trades p =
     (let ta = analyze_targets trades
      in if truthy (optimal_target ta) \<and> target_confidence ta > confidence_threshold then
           (let old_target = optimal_target_pct p
            in if \<bar>the (optimal_target ta) - old_target\<bar> > 0.005 then
                 (p\<lparr>optimal_target_pct := the (optimal_target ta)\<rparr>,
                  [ADJ_TARGET_DISTANCE old_target (the (optimal_target ta))])
               else (p, []))
         else (p, []))"

definition learn_day :: "TradeRecord list \<Rightarrow> PatternEvolution \<Rightarrow> PatternEvolution" where
  "learn_day trades p =
     (let ms = analyze_by_day trades
      in if ms \<noteq> [] then p\<lparr>day_multipliers := map_of ms\<rparr> else p)"

text \<open>
  The tier table of step 6, on the win rate and average return of the fetched trades. The sum of
  the returns is exact here and accumulated in doubles in the program, so an average that meets
  0.02 or 0.01 exactly here (twenty returns of 0.02) can fall on the other side in the program
  and select another tier; every tier ends in the same clamps, which is all the statements on
  the weights use.
\<close>

definition adjust_base_weight :: "real \<Rightarrow> real \<Rightarrow> real \<Rightarrow> real" where
  "adjust_base_weight wr avg old_weight =
     (if wr \<ge> 0.70 \<and> avg > 0.02 then min 3.0 (old_weight * 1.2)
      else if wr \<ge> 0.60 \<and> avg > 0.01 then min 2.5 (old_weight * 1.1)
      else if wr < 0.40 then max 0.3 (old_weight * 0.7)
      else if wr < 0.50 then max 0.5 (old_weight * 0.85)
      else old_weight)"

definition sum_returns :: "TradeRecord list \<Rightarrow> real" where
  "sum_returns trades = sum_list (map (\<lambda>t. py_or (actual_return t) 0) trades)"

definition learn_weight :: "TradeRecord list \<Rightarrow> PatternEvolution \<Rightarrow> PatternEvolution \<times> adjustment list" where
  "learn_weight trades p =
     (if length trades \<ge> 20 then
        (let wr = real (length (filter (\<lambda>t. outcome t = WIN) trades)) / real (length trades);
             avg = sum_returns trades / real (length trades);
             old_weight = base_weight p;
             p' = p\<lparr>base_weight := adjust_base_weight wr avg old_weight\<rparr>
         in (p', if \<bar>base_weight p' - old_weight\<bar> > 0.1 then [ADJ_BASE_WEIGHT old_weight (base_weight p')] else []))
      else (p, []))"

text \<open>
  The block under \<open># Update pattern stats\<close>: three of the four counters and the total return
  are rewritten from the fetched rows.
\<close>

definition learn_counters :: "TradeRecord list \<Rightarrow> PatternEvolution \<Rightarrow> PatternEvolution" where
  "learn_counters trades p =
     p\<lparr>total_trades := int (length trades),
       wins := int (length (filter (\<lambda>t. outcome t = WIN) trades)),
       losses := int (length (filter (\<lambda>t. outcome t = LOSS) trades)),
       total_return := sum_returns trades,
       version := version p + 1\<rparr>"

definition learn_steps :: "TradeRecord list \<Rightarrow> PatternEvolution \<Rightarrow> PatternEvolution \<times> adjustment list" where
  "learn_steps trades p =
     (let (p1, a1) = learn_vix trades p;
          (p2, a2) = learn_time trades p1;
          (p3, a3) = learn_stop trades p2;
          (p4, a4) = learn_target trades p3;
          p5 = learn_day trades p4;
          (p6, a6) = learn_weight trades p5
      in (learn_counters trades p6, a1 @ a2 @ a3 @ a4 @ a6))"

record learning_report =
  r_pattern :: string
  r_trades_analyzed :: nat
  r_adjustments :: "adjustment list"
  r_new_parameters :: PatternEvolution

datatype learn_result = InsufficientData nat | LearningReport learning_report


section \<open>The engine (UnifiedIntelligenceEngine)\<close>

record engine =
  active_trades :: "string \<rightharpoonup> TradeRecord"
  db_trades :: "TradeRecord list"
  db_patterns :: "PatternEvolution list"
  matcher_patterns :: "PatternEvolution list"

definition learn_from_pattern_history :: "engine \<Rightarrow> PatternEvolution \<Rightarrow> learn_result \<times> engine" where
  "learn_from_pattern_history e p =
     (let trades = get_trades_for_pattern (db_trades e) (Some (name p)) 100
      in if length trades < min_trades_for_learning then (InsufficientData (length trades), e)
         else
           (let (p', adjs) = learn_steps trades p
            in (LearningReport \<lparr> r_pattern = name p, r_trades_analyzed = length trades,
                                  r_adjustments = adjs, r_new_parameters = p' \<rparr>,
                e\<lparr>db_patterns := save_pattern (db_patterns e) p'\<rparr>)))"

text \<open>
  The record rebuilt from a persisted row copies the entry fields and takes the dataclass
  defaults for the others.
\<close>

definition reconstruct :: "TradeRecord \<Rightarrow> TradeRecord" where
  "reconstruct row =
     \<lparr> trade_id = trade_id row, pattern_name = pattern_name row, direction = direction row,
       entry_price = entry_price row, entry_time = entry_time row,
       target_price = target_price row, stop_price = stop_price row,
       vix_regime = vix_regime row, time_of_day = time_of_day row,
       day_of_week = day_of_week row, days_to_expiry = days_to_expiry row,
       option_type = None, iv_at_entry = None, pattern_score = 1.0,
       pattern_win_rate_at_entry = 0.5, outcome = PENDING, exit_price = None, exit_time = None,
       actual_return = None, max_favorable = None, max_adverse = None,
       time_to_resolution = None, failure_reason = [], lesson_learned = [],
       suggested_improvements = [] \<rparr>"

text \<open>
  The lookup under the lock: the trade and whether it is the object held by the ledger.
\<close>

definition lookup_trade :: "engine \<Rightarrow> string \<Rightarrow> (TradeRecord \<times> bool) option" where
  "lookup_trade e tid =
     (case active_trades e tid of
        Some t \<Rightarrow> Some (t, True)
      | None \<Rightarrow>
          (let trades = get_trades_for_pattern (db_trades e) None 1000
           in case find (\<lambda>t. trade_id t = tid) trades of
                None \<Rightarrow> None
              | Some trade_data \<Rightarrow> Some (reconstruct trade_data, False)))"

definition apply_exit :: "TradeRecord \<Rightarrow> real \<Rightarrow> real option \<Rightarrow> real option \<Rightarrow> int \<Rightarrow> TradeRecord" where
  "apply_exit t exit_p max_fav max_adv now =
     t\<lparr>exit_price := Some exit_p, exit_time := Some now,
       max_favorable := Some (py_or max_fav exit_p),
       max_adverse := Some (py_or max_adv exit_p)\<rparr>"

definition compute_outcome :: "TradeRecord \<Rightarrow> real \<Rightarrow> py_error + TradeRecord" where
  "compute_outcome t exit_p =
     (if entry_price t = 0 then Inl ZeroDivisionError
      else
        (let r = (if direction t = ''LONG'' then (exit_p - entry_price t) / entry_price t
                  else (entry_price t - exit_p) / entry_price t);
             hit_target = (if direction t = ''LONG'' then exit_p \<ge> target_price t
                           else exit_p \<le> target_price t);
             hit_stop = (if direction t = ''LONG'' then exit_p \<le> stop_price t
                         else exit_p \<ge> stop_price t)
         in Inr (t\<lparr>actual_return := Some r,
                   outcome := (if hit_target then WIN
                               else if hit_stop then LOSS
                               else if \<bar>r\<bar> < 0.005 then SCRATCH
                               else if r > 0 then WIN else LOSS)\<rparr>)))"

text \<open>\<open>int(seconds / 60)\<close> truncates towards zero.\<close>

definition minutes_between :: "int \<Rightarrow> int \<Rightarrow> int" where
  "minutes_between entry_t exit_t =
     (let d = exit_t - entry_t in if d \<ge> 0 then d div 60 else - ((- d) div 60))"

definition update_counters :: "PatternEvolution \<Rightarrow> TradeRecord \<Rightarrow> PatternEvolution" where
  "update_counters p t =
     (let p1 = p\<lparr>total_trades := total_trades p + 1\<rparr>;
          p2 = (if outcome t = WIN then p1\<lparr>wins := wins p1 + 1\<rparr>
                else if outcome t = LOSS then p1\<lparr>losses := losses p1 + 1\<rparr>
                else p1\<lparr>scratches := scratches p1 + 1\<rparr>)
      in p2\<lparr>total_return := total_return p2 + py_or (actual_return t) 0\<rparr>)"

datatype resolve_result =
    TradeNotFound
  | Resolved TradeRecord analysis "learn_result option"

text \<open>Lines 629 to 675: the counters of the owning pattern and the learning trigger.\<close>

definition update_pattern :: "engine \<Rightarrow> TradeRecord \<Rightarrow> analysis \<Rightarrow> resolve_result \<times> engine" where
  "update_pattern e t a =
     (case get_pattern (db_patterns e) (pattern_name t) of
        None \<Rightarrow> (Resolved t a None, e)
      | Some p \<Rightarrow>
          (let p1 = update_counters p t;
               e1 = e\<lparr>db_patterns := save_pattern (db_patterns e) p1\<rparr>
           in if total_trades p1 \<ge> 5 \<and> total_trades p1 mod 5 = 0 then
                (let (lr, e2) = learn_from_pattern_history e1 p1
                 in (Resolved t a (Some lr),
                     e2\<lparr>matcher_patterns := get_all_patterns (db_patterns e2)\<rparr>))
              else (Resolved t a None, e1)))"

text \<open>
  \<open>resolve_trade\<close>. A trade taken from the ledger is mutated in place, so when an exception
  leaves the function early the ledger holds the partly updated record.
\<close>

definition held :: "engine \<Rightarrow> string \<Rightarrow> bool \<Rightarrow> TradeRecord \<Rightarrow> engine" where
  "held e tid live t = (if live then e\<lparr>active_trades := (active_trades e)(tid \<mapsto> t)\<rparr> else e)"

definition resolve_trade ::
  "engine \<Rightarrow> string \<Rightarrow> real \<Rightarrow> real option \<Rightarrow> real option \<Rightarrow> int \<Rightarrow> (py_error + resolve_result) \<times> engine" where
  "resolve_trade e tid exit_p max_fav max_adv now =
     (case lookup_trade e tid of
        None \<Rightarrow> (Inr TradeNotFound, e)
      | Some (t, live) \<Rightarrow>
          (let t1 = apply_exit t exit_p max_fav max_adv now
           in case compute_outcome t1 exit_p of
                Inl err \<Rightarrow> (Inl err, held e tid live t1)
              | Inr t2 \<Rightarrow>
                  (let t3 = t2\<lparr>time_to_resolution := Some (minutes_between (entry_time t2) now)\<rparr>
                   in case analyze_trade_outcome t3 of
                        Inl err \<Rightarrow> (Inl err, held e tid live t3)
                      | Inr a \<Rightarrow>
                          (let t4 = t3\<lparr>failure_reason := a_failure_reasons a,
                                      lesson_learned := a_lessons a,
                                      suggested_improvements := a_improvements a\<rparr>;
                               e1 = e\<lparr>db_trades := save_trade (db_trades e) t4,
                                     active_trades := (active_trades e)(tid := None)\<rparr>;
                               (res, e2) = update_pattern e1 t4 a
                           in (Inr res, e2)))))"


text \<open>A sequence of \<open>resolve_trade\<close> calls; an exception ends its own call only.\<close>

record resolve_call =
  c_trade_id :: string
  c_exit_price :: real
  c_max_favorable :: "real option"
  c_max_adverse :: "real option"
  c_now :: int

definition resolve_call :: "engine \<Rightarrow> resolve_call \<Rightarrow> engine" where
  "resolve_call e c =
     snd (resolve_trade e (c_trade_id c) (c_exit_price c) (c_max_favorable c) (c_max_adverse c) (c_now c))"

definition resolve_calls :: "engine \<Rightarrow> resolve_call list \<Rightarrow> engine" where
  "resolve_calls e cs = foldl resolve_call e cs"

text \<open>The persisted row of a trade id, and the ledger's keying by \<open>trade.id\<close>.\<close>

definition stored_trade :: "engine \<Rightarrow> string \<Rightarrow> TradeRecord option" where
  "stored_trade e tid = find (\<lambda>r. trade_id r = tid) (db_trades e)"

definition ledger_keyed :: "engine \<Rightarrow> bool" where
  "ledger_keyed e = (\<forall>k t. active_trades e k = Some t \<longrightarrow> trade_id t = k)"


section \<open>Seed patterns and example values\<close>

text \<open>
  \<open>PatternEvolution(name=.., keywords=.., direction=.., symbols=.., base_weight=..)\<close> as
  \<open>_load_patterns\<close> builds it: the other fields take the dataclass defaults.
\<close>

definition new_pattern :: "string \<Rightarrow> string list \<Rightarrow> string \<Rightarrow> string list \<Rightarrow> real \<Rightarrow> PatternEvolution" where
  "new_pattern n kws dir syms w =
     \<lparr> name = n, version = 1, keywords_p = kws, p_direction = dir, symbols = syms,
       base_weight = w, best_time_of_day = None, worst_time_of_day = None,
       time_multipliers = Map.empty, best_vix_regime = None, vix_multipliers = Map.empty,
       day_multipliers = Map.empty, optimal_stop_pct = 0.02, optimal_target_pct = 0.03,
       optimal_hold_hours = 24, total_trades = 0, wins = 0, losses = 0, scratches = 0,
       total_return = 0 \<rparr>"

text \<open>Two entries of \<open>INITIAL_PATTERNS\<close>, and \<open>PatternEvolution(name=..)\<close> with every default.\<close>

definition fed_dovish :: PatternEvolution where
  "fed_dovish = new_pattern ''fed_dovish'' [''rate cut'', ''dovish'', ''pivot'', ''pause'', ''easing'']
                  ''LONG'' [''QQQ'', ''TLT''] 2.0"

definition fed_emergency :: PatternEvolution where
  "fed_emergency = new_pattern ''fed_emergency''
                     [''emergency meeting'', ''emergency session'', ''unscheduled fomc'']
                     ''SHORT'' [''SPY'', ''QQQ''] 3.0"

definition bare_pattern :: PatternEvolution where
  "bare_pattern = new_pattern ''bare'' [] ''LONG'' [] 1.0"

text \<open>
  A pending trade as the signal generator leaves it, in a \<open>NORMAL\<close> regime at \<open>MIDDAY\<close> on a
  Monday, and the same trade as a persisted row with a terminal outcome.
\<close>

definition pending_trade :: "string \<Rightarrow> string \<Rightarrow> string \<Rightarrow> real \<Rightarrow> real \<Rightarrow> real \<Rightarrow> TradeRecord" where
  "pending_trade tid pn dir entry target stop =
     \<lparr> trade_id = tid, pattern_name = pn, direction = dir, entry_price = entry, entry_time = 0,
       target_price = target, stop_price = stop, vix_regime = ''NORMAL'', time_of_day = ''MIDDAY'',
       day_of_week = Some 0, days_to_expiry = 7, option_type = Some ''CALL'', iv_at_entry = None,
       pattern_score = 1.2, pattern_win_rate_at_entry = 0.5, outcome = PENDING, exit_price = None,
       exit_time = None, actual_return = None, max_favorable = None, max_adverse = None,
       time_to_resolution = None, failure_reason = [], lesson_learned = [],
       suggested_improvements = [] \<rparr>"

definition closed_trade :: "string \<Rightarrow> string \<Rightarrow> real \<Rightarrow> real \<Rightarrow> real \<Rightarrow> outcome \<Rightarrow> real \<Rightarrow> TradeRecord" where
  "closed_trade tid pn entry target stop oc exit_p =
     (pending_trade tid pn ''LONG'' entry target stop)
       \<lparr> outcome := oc, exit_price := Some exit_p, exit_time := Some 3600,
         actual_return := Some ((exit_p - entry) / entry), max_favorable := Some exit_p,
         max_adverse := Some exit_p, time_to_resolution := Some 60 \<rparr>"


text \<open>
  Engines used as concrete inputs: one whose only trade has been resolved and has left the ledger,
  one that holds the same trade, still pending, in the store only (as after a restart), and one
  with the trade live in the ledger.
\<close>

definition idle_engine :: engine where
  "idle_engine =
     \<lparr> active_trades = Map.empty,
       db_trades = [closed_trade ''t1'' ''fed_dovish'' 100 103 98 WIN 103.5],
       db_patterns = [fed_dovish\<lparr>total_trades := 1, wins := 1, total_return := 0.035\<rparr>],
       matcher_patterns = [fed_dovish] \<rparr>"

definition restart_engine :: engine where
  "restart_engine =
     \<lparr> active_trades = Map.empty,
       db_trades = [pending_trade ''t1'' ''fed_dovish'' ''LONG'' 100 103 98],
       db_patterns = [fed_dovish],
       matcher_patterns = [fed_dovish] \<rparr>"

definition live_engine :: engine where
  "live_engine =
     \<lparr> active_trades = [''t1'' \<mapsto> pending_trade ''t1'' ''fed_dovish'' ''LONG'' 100 103 98],
       db_trades = [pending_trade ''t1'' ''fed_dovish'' ''LONG'' 100 103 98],
       db_patterns = [fed_dovish],
       matcher_patterns = [fed_dovish] \<rparr>"

definition retry_call :: resolve_call where
  "retry_call = \<lparr> c_trade_id = ''t1'', c_exit_price = 90, c_max_favorable = None,
                   c_max_adverse = None, c_now = 7200 \<rparr>"


text \<open>
  The rows of the \<open>trades\<close> table that belong to a pattern, those of them with a terminal
  outcome, whether a learning result is the insufficient-data status, and the four counters of a
  pattern.
\<close>

definition is_insufficient :: "learn_result \<Rightarrow> bool" where
  "is_insufficient r = (case r of InsufficientData n \<Rightarrow> True | LearningReport rep \<Rightarrow> False)"

definition pattern_rows :: "engine \<Rightarrow> string \<Rightarrow> TradeRecord list" where
  "pattern_rows e n = filter (\<lambda>t. pattern_name t = n) (db_trades e)"

definition resolved_rows :: "engine \<Rightarrow> string \<Rightarrow> TradeRecord list" where
  "resolved_rows e n = filter (\<lambda>t. outcome t \<noteq> PENDING) (pattern_rows e n)"

definition counters :: "PatternEvolution \<Rightarrow> int \<times> int \<times> int \<times> int" where
  "counters p = (total_trades p, wins p, losses p, scratches p)"

text \<open>
  An engine whose store holds five trades of \<open>fed_dovish\<close>, all pending, and an engine with
  four resolved winning trades of \<open>fed_dovish\<close> and two pending ones, \<open>t5\<close> and \<open>t6\<close>.
\<close>

definition pending_engine :: engine where
  "pending_engine =
     \<lparr> active_trades = [''p1'' \<mapsto> pending_trade ''p1'' ''fed_dovish'' ''LONG'' 100 103 98,
                        ''p2'' \<mapsto> pending_trade ''p2'' ''fed_dovish'' ''LONG'' 100 103 98,
                        ''p3'' \<mapsto> pending_trade ''p3'' ''fed_dovish'' ''LONG'' 100 103 98,
                        ''p4'' \<mapsto> pending_trade ''p4'' ''fed_dovish'' ''LONG'' 100 103 98,
                        ''p5'' \<mapsto> pending_trade ''p5'' ''fed_dovish'' ''LONG'' 100 103 98],
       db_trades = [pending_trade ''p1'' ''fed_dovish'' ''LONG'' 100 103 98,
                    pending_trade ''p2'' ''fed_dovish'' ''LONG'' 100 103 98,
                    pending_trade ''p3'' ''fed_dovish'' ''LONG'' 100 103 98,
                    pending_trade ''p4'' ''fed_dovish'' ''LONG'' 100 103 98,
                    pending_trade ''p5'' ''fed_dovish'' ''LONG'' 100 103 98],
       db_patterns = [fed_dovish],
       matcher_patterns = [fed_dovish] \<rparr>"

definition busy_engine :: engine where
  "busy_engine =
     \<lparr> active_trades = [''t5'' \<mapsto> pending_trade ''t5'' ''fed_dovish'' ''LONG'' 100 103 98,
                        ''t6'' \<mapsto> pending_trade ''t6'' ''fed_dovish'' ''LONG'' 100 103 98],
       db_trades = [closed_trade ''w1'' ''fed_dovish'' 100 103 98 WIN 103.5,
                    closed_trade ''w2'' ''fed_dovish'' 100 103 98 WIN 103.5,
                    closed_trade ''w3'' ''fed_dovish'' 100 103 98 WIN 103.5,
                    closed_trade ''w4'' ''fed_dovish'' 100 103 98 WIN 103.5,
                    pending_trade ''t5'' ''fed_dovish'' ''LONG'' 100 103 98,
                    pending_trade ''t6'' ''fed_dovish'' ''LONG'' 100 103 98],
       db_patterns = [fed_dovish\<lparr>total_trades := 4, wins := 4, total_return := 0.14\<rparr>],
       matcher_patterns = [fed_dovish] \<rparr>"

text \<open>
  The parts of the stop-distance rule, named after the specification: the LOSS trades, whether
  the widening heuristic fires on a list of losses, the confidence on their number, and the
  recommended stop. \<open>stop_gate\<close> is the conjunction that guards the assignment in
  \<open>learn_from_pattern_history\<close>; its third conjunct is the truthiness test of the recommended
  value.
\<close>

definition loss_trades :: "TradeRecord list \<Rightarrow> TradeRecord list" where
  "loss_trades trades = filter (\<lambda>t. outcome t = LOSS) trades"

definition widening_fires :: "TradeRecord list \<Rightarrow> bool" where
  "widening_fires ls = (real (length (tight_stops ls)) > real (length ls) * 0.5)"

definition loss_confidence :: "TradeRecord list \<Rightarrow> real" where
  "loss_confidence ls = min 1 (real (length ls) / 10)"

definition recommended_stop :: "TradeRecord list \<Rightarrow> real" where
  "recommended_stop ls = min 0.05 (mean (map planned_stop ls) * 1.3)"

definition stop_gate :: "TradeRecord list \<Rightarrow> real \<Rightarrow> bool" where
  "stop_gate ls current_stop =
     (widening_fires ls \<and> loss_confidence ls > 0.7 \<and> recommended_stop ls \<noteq> 0
      \<and> \<bar>recommended_stop ls - current_stop\<bar> > 0.005)"

text \<open>
  Eight losing trades whose stop price equals the entry price (planned stop distance 0), and
  eight losing trades stopped 2 percent below entry after an adverse move of 2.1 percent.
\<close>

definition zero_stop_losses :: "TradeRecord list" where
  "zero_stop_losses =
     map (\<lambda>i. closed_trade i ''fed_dovish'' 100 103 100 LOSS 99.8)
         [''z1'', ''z2'', ''z3'', ''z4'', ''z5'', ''z6'', ''z7'', ''z8'']"

definition tight_losses :: "TradeRecord list" where
  "tight_losses =
     map (\<lambda>i. closed_trade i ''fed_dovish'' 100 103 98 LOSS 97.9)
         [''s1'', ''s2'', ''s3'', ''s4'', ''s5'', ''s6'', ''s7'', ''s8'']"

text \<open>
  The three context factors as the specification words them: the pattern's multiplier for the
  VIX regime, the time-of-day bucket and the weekday of the context, each 1 when there is no
  context, no such entry, or (as \<open>dict.get\<close> is used as a condition) a zero entry or an empty
  label.
\<close>

definition vix_factor :: "PatternEvolution \<Rightarrow> market_context option \<Rightarrow> real" where
  "vix_factor p ctx =
     (case ctx of
        None \<Rightarrow> 1
      | Some c \<Rightarrow>
          (case ctx_vix_regime c of
             None \<Rightarrow> 1
           | Some r \<Rightarrow>
               (case vix_multipliers p r of
                  None \<Rightarrow> 1
                | Some m \<Rightarrow> if r = [] \<or> m = 0 then 1 else m)))"

definition time_factor :: "PatternEvolution \<Rightarrow> market_context option \<Rightarrow> real" where
  "time_factor p ctx =
     (case ctx of
        None \<Rightarrow> 1
      | Some c \<Rightarrow>
          (case ctx_time_of_day c of
             None \<Rightarrow> 1
           | Some b \<Rightarrow>
               (case time_multipliers p b of
                  None \<Rightarrow> 1
                | Some m \<Rightarrow> if b = [] \<or> m = 0 then 1 else m)))"

definition day_factor :: "PatternEvolution \<Rightarrow> market_context option \<Rightarrow> real" where
  "day_factor p ctx =
     (case ctx of
        None \<Rightarrow> 1
      | Some c \<Rightarrow>
          (case ctx_day_of_week c of
             None \<Rightarrow> 1
           | Some d \<Rightarrow>
               (case day_multipliers p d of
                  None \<Rightarrow> 1
                | Some m \<Rightarrow> if m = 0 then 1 else m)))"

text \<open>A market context, and \<open>fed_dovish\<close> with a learned multiplier for the \<open>NORMAL\<close> regime.\<close>

definition normal_context :: market_context where
  "normal_context = \<lparr> ctx_vix_regime = Some ''NORMAL'', ctx_time_of_day = Some ''MIDDAY'',
                       ctx_day_of_week = Some 0 \<rparr>"

definition tuned_dovish :: PatternEvolution where
  "tuned_dovish = fed_dovish\<lparr>vix_multipliers := [''NORMAL'' \<mapsto> 1.5]\<rparr>"

text \<open>
  The stop-distance rule in the specification's words: a loss is within half a point of its
  planned stop when adverse move and planned stop differ by less than 0.005 either way, and the
  claimed gate asks that of more than half of the losses, a confidence above 0.70 and a
  recommended stop that is not zero and is more than 0.005 away from the current one.
  \<open>plain_loss\<close> is the range of losses the comparison with the code is made on: the row records
  a non-zero adverse excursion and entry price, the trade did not close half a point or more
  short of its planned stop, and the excess over the stop is clear of the 0.005 threshold by more
  than rounding; \<open>change_off_threshold\<close> is the same clearance for the size of the change.
\<close>

definition within_half_point :: "TradeRecord \<Rightarrow> bool" where
  "within_half_point t = (\<bar>adverse_move t - planned_stop t\<bar> < 0.005)"

definition mostly_within_half_point :: "TradeRecord list \<Rightarrow> bool" where
  "mostly_within_half_point ls = (2 * length (filter within_half_point ls) > length ls)"

definition claimed_stop_gate :: "TradeRecord list \<Rightarrow> real \<Rightarrow> bool" where
  "claimed_stop_gate ls current_stop =
     (mostly_within_half_point ls \<and> loss_confidence ls > 0.7 \<and> recommended_stop ls \<noteq> 0
      \<and> \<bar>recommended_stop ls - current_stop\<bar> > 0.005)"

definition plain_loss :: "TradeRecord \<Rightarrow> bool" where
  "plain_loss t =
     (truthy (max_adverse t) \<and> entry_price t \<noteq> 0
      \<and> adverse_move t - planned_stop t > - 0.005
      \<and> \<bar>(adverse_move t - planned_stop t) - 0.005\<bar> > (\<bar>adverse_move t\<bar> + \<bar>planned_stop t\<bar>) / 10 ^ 9)"

definition change_off_threshold :: "TradeRecord list \<Rightarrow> real \<Rightarrow> bool" where
  "change_off_threshold ls current_stop =
     (\<bar>\<bar>recommended_stop ls - current_stop\<bar> - 0.005\<bar> > (\<bar>current_stop\<bar> + 1) / 10 ^ 9)"

text \<open>
  Eight losses closed well beyond the stop (entry 100, stop 98, exit 95), and eight closed 1.5
  points short of it (exit 99.5).
\<close>

definition overshot_losses :: "TradeRecord list" where
  "overshot_losses =
     map (\<lambda>i. closed_trade i ''fed_dovish'' 100 103 98 LOSS 95)
         [''o1'', ''o2'', ''o3'', ''o4'', ''o5'', ''o6'', ''o7'', ''o8'']"

definition short_losses :: "TradeRecord list" where
  "short_losses =
     map (\<lambda>i. closed_trade i ''fed_dovish'' 100 103 98 LOSS 99.5)
         [''h1'', ''h2'', ''h3'', ''h4'', ''h5'', ''h6'', ''h7'', ''h8'']"

text \<open>
  Lines 629 to 657 of \<open>resolve_trade\<close> for two calls on the same pattern running on two
  threads. Each store call holds the store lock, so \<open>get_pattern\<close> and \<open>save_pattern\<close> are
  atomic steps; no lock is held from the load to the save, so the steps of the two calls can
  interleave. The counter update between them touches only the call's own \<open>pattern\<close> object and
  is folded into the save step. The learning pass that follows the save runs when the new trade
  count is a multiple of 5 and is not part of these steps.
\<close>

datatype worker = WorkerA | WorkerB

datatype store_step = LoadPattern worker | SavePattern worker

record race_state =
  rs_patterns :: "PatternEvolution list"
  rs_loaded_a :: "PatternEvolution option"
  rs_loaded_b :: "PatternEvolution option"

fun race_step :: "TradeRecord \<Rightarrow> TradeRecord \<Rightarrow> race_state \<Rightarrow> store_step \<Rightarrow> race_state" where
  "race_step ta tb s (LoadPattern WorkerA) =
     s\<lparr>rs_loaded_a := get_pattern (rs_patterns s) (pattern_name ta)\<rparr>"
| "race_step ta tb s (LoadPattern WorkerB) =
     s\<lparr>rs_loaded_b := get_pattern (rs_patterns s) (pattern_name tb)\<rparr>"
| "race_step ta tb s (SavePattern WorkerA) =
     (case rs_loaded_a s of
        None \<Rightarrow> s
      | Some p \<Rightarrow> s\<lparr>rs_patterns := save_pattern (rs_patterns s) (update_counters p ta)\<rparr>)"
| "race_step ta tb s (SavePattern WorkerB) =
     (case rs_loaded_b s of
        None \<Rightarrow> s
      | Some p \<Rightarrow> s\<lparr>rs_patterns := save_pattern (rs_patterns s) (update_counters p tb)\<rparr>)"

definition run_schedule :: "TradeRecord \<Rightarrow> TradeRecord \<Rightarrow> PatternEvolution list \<Rightarrow> store_step list \<Rightarrow> PatternEvolution list" where
  "run_schedule ta tb patterns steps =
     rs_patterns (foldl (race_step ta tb)
        \<lparr> rs_patterns = patterns, rs_loaded_a = None, rs_loaded_b = None \<rparr> steps)"

definition resolved_a :: TradeRecord where
  "resolved_a = closed_trade ''a'' ''fed_dovish'' 100 103 98 WIN 103.5"

definition resolved_b :: TradeRecord where
  "resolved_b = closed_trade ''b'' ''fed_dovish'' 100 103 98 WIN 103.5"

text \<open>The headline of the matching example.\<close>

definition fed_title :: string where
  "fed_title = ''Fed signals rate cut and dovish pivot ahead''"

text \<open>
  The life of one pattern: trade resolutions, which update its counters, and learning passes,
  which run the six steps on the rows fetched for it.
\<close>

datatype pattern_event = Resolution TradeRecord | LearningPass "TradeRecord list"

fun apply_event :: "PatternEvolution \<Rightarrow> pattern_event \<Rightarrow> PatternEvolution" where
  "apply_event p (Resolution t) = update_counters p t"
| "apply_event p (LearningPass trades) = fst (learn_steps trades p)"

definition apply_events :: "PatternEvolution \<Rightarrow> pattern_event list \<Rightarrow> PatternEvolution" where
  "apply_events p evs = foldl apply_event p evs"

text \<open>Ten winning resolutions of a trade of the seed pattern \<open>fed_emergency\<close>.\<close>

definition winning_trade :: TradeRecord where
  "winning_trade = closed_trade ''w'' ''fed_emergency'' 100 103 98 WIN 103.5"

definition ten_wins :: "pattern_event list" where
  "ten_wins = [Resolution winning_trade, Resolution winning_trade, Resolution winning_trade,
               Resolution winning_trade, Resolution winning_trade, Resolution winning_trade,
               Resolution winning_trade, Resolution winning_trade, Resolution winning_trade,
               Resolution winning_trade]"

text \<open>
  The return and the outcome as the specification words them, for comparison with
  \<open>compute_outcome\<close>: the return of a short trade is the negated return of a long one; the
  outcome is decided by the target hit, then the stop hit, then the half-percent band, then the
  sign of the return.
\<close>

definition claimed_return :: "string \<Rightarrow> real \<Rightarrow> real \<Rightarrow> real" where
  "claimed_return dir entry exit_p =
     (if dir = ''LONG'' then (exit_p - entry) / entry else - ((exit_p - entry) / entry))"

definition claimed_outcome :: "bool \<Rightarrow> bool \<Rightarrow> real \<Rightarrow> outcome" where
  "claimed_outcome hit_target hit_stop r =
     (if hit_target then WIN
      else if hit_stop then LOSS
      else if \<bar>r\<bar> < 0.005 then SCRATCH
      else if r > 0 then WIN else LOSS)"


section \<open>Properties of trade resolution\<close>

lemma apply_exit_fields:
  "trade_id (apply_exit t x mf ma now) = trade_id t"
  "entry_price (apply_exit t x mf ma now) = entry_price t"
  "target_price (apply_exit t x mf ma now) = target_price t"
  "stop_price (apply_exit t x mf ma now) = stop_price t"
  "direction (apply_exit t x mf ma now) = direction t"
  "max_favorable (apply_exit t x mf ma now) = Some (py_or mf x)"
  "max_adverse (apply_exit t x mf ma now) = Some (py_or ma x)"
  by (simp_all add: apply_exit_def)

lemma compute_outcome_fields:
  assumes "compute_outcome t x = Inr t2"
  shows "trade_id t2 = trade_id t" "entry_price t2 = entry_price t"
    "target_price t2 = target_price t" "stop_price t2 = stop_price t"
    "direction t2 = direction t" "max_favorable t2 = max_favorable t"
    "max_adverse t2 = max_adverse t" "pattern_name t2 = pattern_name t"
  using assms by (auto simp: compute_outcome_def Let_def split: if_splits)

lemma compute_outcome_total:
  "entry_price t \<noteq> 0 \<Longrightarrow> \<exists>t2. compute_outcome t x = Inr t2"
  by (simp add: compute_outcome_def Let_def)

lemma compute_outcome_zero:
  "entry_price t = 0 \<Longrightarrow> compute_outcome t x = Inl ZeroDivisionError"
  by (simp add: compute_outcome_def)

lemma analyze_trade_outcome_total:
  "entry_price t \<noteq> 0 \<Longrightarrow> \<exists>a. analyze_trade_outcome t = Inr a"
  by (simp add: analyze_trade_outcome_def analyze_failure_def stop_reasons_def Let_def)

lemma learn_frame:
  "db_trades (snd (learn_from_pattern_history e p)) = db_trades e"
  "active_trades (snd (learn_from_pattern_history e p)) = active_trades e"
  by (simp_all add: learn_from_pattern_history_def Let_def split: prod.splits)

lemma update_pattern_frame:
  "db_trades (snd (update_pattern e t a)) = db_trades e"
  "active_trades (snd (update_pattern e t a)) = active_trades e"
  by (simp_all add: update_pattern_def Let_def case_prod_beta learn_frame split: option.splits)

lemma update_pattern_result:
  "\<exists>l. fst (update_pattern e t a) = Resolved t a l"
  by (simp add: update_pattern_def Let_def case_prod_beta split: option.splits)

text \<open>An id that is not in the ledger: the store is queried with a null pattern name.\<close>

lemma resolve_trade_missing:
  assumes "active_trades e tid = None"
  shows "resolve_trade e tid x mf ma now = (Inr TradeNotFound, e)"
  using assms by (simp add: resolve_trade_def lookup_trade_def get_trades_for_pattern_def)

text \<open>A live trade with a non-zero entry price runs through every stage.\<close>

lemma resolve_trade_live:
  assumes "active_trades e tid = Some t0" "entry_price t0 \<noteq> 0"
  shows "\<exists>t2 a. compute_outcome (apply_exit t0 x mf ma now) x = Inr t2
           \<and> analyze_trade_outcome (t2\<lparr>time_to_resolution := Some (minutes_between (entry_time t2) now)\<rparr>) = Inr a
           \<and> resolve_trade e tid x mf ma now =
               (let t4 = t2\<lparr>time_to_resolution := Some (minutes_between (entry_time t2) now),
                            failure_reason := a_failure_reasons a, lesson_learned := a_lessons a,
                            suggested_improvements := a_improvements a\<rparr>;
                    r = update_pattern (e\<lparr>db_trades := save_trade (db_trades e) t4,
                                         active_trades := (active_trades e)(tid := None)\<rparr>) t4 a
                in (Inr (fst r), snd r))"
proof -
  obtain t2 where t2: "compute_outcome (apply_exit t0 x mf ma now) x = Inr t2"
    using compute_outcome_total[of "apply_exit t0 x mf ma now" x] assms(2)
    by (auto simp: apply_exit_fields)
  have "entry_price t2 \<noteq> 0"
    using compute_outcome_fields(2)[OF t2] assms(2) by (simp add: apply_exit_fields)
  then obtain a where a: "analyze_trade_outcome (t2\<lparr>time_to_resolution := Some (minutes_between (entry_time t2) now)\<rparr>) = Inr a"
    using analyze_trade_outcome_total[of "t2\<lparr>time_to_resolution := Some (minutes_between (entry_time t2) now)\<rparr>"] by auto
  show ?thesis
    using t2 a assms(1)
    by (simp add: resolve_trade_def lookup_trade_def Let_def case_prod_beta)
qed

lemma resolve_trade_zero:
  assumes "active_trades e tid = Some t0" "entry_price t0 = 0"
  shows "resolve_trade e tid x mf ma now =
           (Inl ZeroDivisionError, e\<lparr>active_trades := (active_trades e)(tid \<mapsto> apply_exit t0 x mf ma now)\<rparr>)"
  using assms
  by (simp add: resolve_trade_def lookup_trade_def Let_def held_def compute_outcome_zero apply_exit_fields)

lemma find_save_trade:
  "trade_id t \<noteq> tid \<Longrightarrow>
     find (\<lambda>r. trade_id r = tid) (save_trade rows t) = find (\<lambda>r. trade_id r = tid) rows"
  by (induction rows) (auto simp: save_trade_def)

text \<open>
  One call, on any id, keeps an id that is out of the ledger out of it, keeps the ledger keyed by
  trade id, and leaves the persisted row of that id as it is.
\<close>

lemma resolve_trade_step:
  assumes "ledger_keyed e" "active_trades e tid = None"
  shows "ledger_keyed (snd (resolve_trade e k x mf ma now))
       \<and> active_trades (snd (resolve_trade e k x mf ma now)) tid = None
       \<and> stored_trade (snd (resolve_trade e k x mf ma now)) tid = stored_trade e tid"
proof (cases "active_trades e k")
  case None
  then show ?thesis using assms by (simp add: resolve_trade_missing)
next
  case (Some t0)
  then have id0: "trade_id t0 = k" and ne: "k \<noteq> tid"
    using assms by (auto simp: ledger_keyed_def)
  show ?thesis
  proof (cases "entry_price t0 = 0")
    case True
    show ?thesis
      using assms ne id0
      by (simp add: resolve_trade_zero[OF Some True] ledger_keyed_def stored_trade_def apply_exit_fields)
  next
    case False
    obtain t2 a where t2: "compute_outcome (apply_exit t0 x mf ma now) x = Inr t2"
      and r: "resolve_trade e k x mf ma now =
               (let t4 = t2\<lparr>time_to_resolution := Some (minutes_between (entry_time t2) now),
                            failure_reason := a_failure_reasons a, lesson_learned := a_lessons a,
                            suggested_improvements := a_improvements a\<rparr>;
                    r = update_pattern (e\<lparr>db_trades := save_trade (db_trades e) t4,
                                         active_trades := (active_trades e)(k := None)\<rparr>) t4 a
                in (Inr (fst r), snd r))"
      using resolve_trade_live[OF Some False, of x mf ma now] by blast
    have "trade_id t2 = k"
      using compute_outcome_fields(1)[OF t2] id0 by (simp add: apply_exit_fields)
    then show ?thesis
      using assms ne
      by (simp add: r Let_def update_pattern_frame ledger_keyed_def stored_trade_def find_save_trade)
  qed
qed

lemma resolve_calls_invariant:
  assumes "ledger_keyed e" "active_trades e tid = None"
  shows "ledger_keyed (resolve_calls e cs)
       \<and> active_trades (resolve_calls e cs) tid = None
       \<and> stored_trade (resolve_calls e cs) tid = stored_trade e tid"
  using assms
proof (induction cs arbitrary: e)
  case Nil
  then show ?case by (simp add: resolve_calls_def)
next
  case (Cons c cs)
  have step: "ledger_keyed (resolve_call e c) \<and> active_trades (resolve_call e c) tid = None
       \<and> stored_trade (resolve_call e c) tid = stored_trade e tid"
    using resolve_trade_step[OF Cons.prems] by (simp add: resolve_call_def)
  have "resolve_calls e (c # cs) = resolve_calls (resolve_call e c) cs"
    by (simp add: resolve_calls_def)
  then show ?case using Cons.IH[of "resolve_call e c"] step by simp
qed

lemma resolve_trade_Resolved:
  assumes "resolve_trade e tid x mf ma now = (Inr (Resolved t a l), e')"
  shows "\<exists>t0 t2. active_trades e tid = Some t0 \<and> entry_price t0 \<noteq> 0
           \<and> compute_outcome (apply_exit t0 x mf ma now) x = Inr t2
           \<and> t = t2\<lparr>time_to_resolution := Some (minutes_between (entry_time t2) now),
                    failure_reason := a_failure_reasons a, lesson_learned := a_lessons a,
                    suggested_improvements := a_improvements a\<rparr>"
proof (cases "active_trades e tid")
  case None
  then show ?thesis using assms by (simp add: resolve_trade_missing)
next
  case (Some t0)
  show ?thesis
  proof (cases "entry_price t0 = 0")
    case True
    then show ?thesis using assms by (simp add: resolve_trade_zero[OF Some True])
  next
    case False
    obtain t2 a' where t2: "compute_outcome (apply_exit t0 x mf ma now) x = Inr t2"
      and r: "resolve_trade e tid x mf ma now =
               (let t4 = t2\<lparr>time_to_resolution := Some (minutes_between (entry_time t2) now),
                            failure_reason := a_failure_reasons a', lesson_learned := a_lessons a',
                            suggested_improvements := a_improvements a'\<rparr>;
                    r = update_pattern (e\<lparr>db_trades := save_trade (db_trades e) t4,
                                         active_trades := (active_trades e)(tid := None)\<rparr>) t4 a'
                in (Inr (fst r), snd r))"
      using resolve_trade_live[OF Some False, of x mf ma now] by blast
    define t4 where "t4 = t2\<lparr>time_to_resolution := Some (minutes_between (entry_time t2) now),
                            failure_reason := a_failure_reasons a', lesson_learned := a_lessons a',
                            suggested_improvements := a_improvements a'\<rparr>"
    define e1 where "e1 = e\<lparr>db_trades := save_trade (db_trades e) t4,
                            active_trades := (active_trades e)(tid := None)\<rparr>"
    have r': "resolve_trade e tid x mf ma now = (Inr (fst (update_pattern e1 t4 a')), snd (update_pattern e1 t4 a'))"
      using r by (simp add: Let_def t4_def e1_def)
    obtain l' where "fst (update_pattern e1 t4 a') = Resolved t4 a' l'"
      using update_pattern_result by blast
    then have "t = t4 \<and> a = a'"
      using assms r' by simp
    then show ?thesis using Some False t2 by (auto simp: t4_def)
  qed
qed



lemma resolve_trade_returns:
  assumes "active_trades e tid = Some t0" and "entry_price t0 \<noteq> 0"
  shows "\<exists>t a l e'. resolve_trade e tid x mf ma now = (Inr (Resolved t a l), e')"
proof -
  obtain t2 a where r: "resolve_trade e tid x mf ma now =
             (let t4 = t2\<lparr>time_to_resolution := Some (minutes_between (entry_time t2) now),
                          failure_reason := a_failure_reasons a, lesson_learned := a_lessons a,
                          suggested_improvements := a_improvements a\<rparr>;
                  r = update_pattern (e\<lparr>db_trades := save_trade (db_trades e) t4,
                                       active_trades := (active_trades e)(tid := None)\<rparr>) t4 a
              in (Inr (fst r), snd r))"
    using resolve_trade_live[OF assms, of x mf ma now] by blast
  show ?thesis
    unfolding r Let_def using update_pattern_result by (metis prod.inject)
qed


lemma compute_outcome_terminal:
  assumes "compute_outcome t x = Inr t2"
  shows "outcome t2 = WIN \<or> outcome t2 = LOSS \<or> outcome t2 = SCRATCH"
  using assms by (auto simp: compute_outcome_def Let_def split: if_splits)

lemma find_save_trade_same:
  "find (\<lambda>r. trade_id r = trade_id t) (save_trade rows t) = Some t"
  by (induction rows) (auto simp: save_trade_def)

text \<open>The state a successful resolution leaves: the record saved, the id out of the ledger.\<close>

lemma resolve_trade_Resolved_state:
  assumes "resolve_trade e tid x mf ma now = (Inr (Resolved t a l), e')"
  shows "e' = snd (update_pattern (e\<lparr>db_trades := save_trade (db_trades e) t,
                                     active_trades := (active_trades e)(tid := None)\<rparr>) t a)"
proof (cases "active_trades e tid")
  case None
  then show ?thesis using assms by (simp add: resolve_trade_missing)
next
  case (Some t0)
  show ?thesis
  proof (cases "entry_price t0 = 0")
    case True
    then show ?thesis using assms by (simp add: resolve_trade_zero[OF Some True])
  next
    case False
    obtain t2 a' where r: "resolve_trade e tid x mf ma now =
               (let t4 = t2\<lparr>time_to_resolution := Some (minutes_between (entry_time t2) now),
                            failure_reason := a_failure_reasons a', lesson_learned := a_lessons a',
                            suggested_improvements := a_improvements a'\<rparr>;
                    r = update_pattern (e\<lparr>db_trades := save_trade (db_trades e) t4,
                                         active_trades := (active_trades e)(tid := None)\<rparr>) t4 a'
                in (Inr (fst r), snd r))"
      using resolve_trade_live[OF Some False, of x mf ma now] by blast
    define t4 where "t4 = t2\<lparr>time_to_resolution := Some (minutes_between (entry_time t2) now),
                            failure_reason := a_failure_reasons a', lesson_learned := a_lessons a',
                            suggested_improvements := a_improvements a'\<rparr>"
    define e1 where "e1 = e\<lparr>db_trades := save_trade (db_trades e) t4,
                            active_trades := (active_trades e)(tid := None)\<rparr>"
    have r': "resolve_trade e tid x mf ma now = (Inr (fst (update_pattern e1 t4 a')), snd (update_pattern e1 t4 a'))"
      using r by (simp add: Let_def t4_def e1_def)
    obtain l' where "fst (update_pattern e1 t4 a') = Resolved t4 a' l'"
      using update_pattern_result by blast
    then have "t = t4 \<and> a = a' \<and> e' = snd (update_pattern e1 t4 a')"
      using assms r' by auto
    then show ?thesis by (simp add: e1_def)
  qed
qed

lemma resolve_trade_settles:
  assumes "ledger_keyed e" and "resolve_trade e tid x mf ma now = (Inr (Resolved t a l), e')"
  shows "outcome t \<noteq> PENDING" and "active_trades e' tid = None" and "stored_trade e' tid = Some t"
    and "ledger_keyed e'"
proof -
  obtain t0 t2 where a0: "active_trades e tid = Some t0"
    and t2: "compute_outcome (apply_exit t0 x mf ma now) x = Inr t2"
    and t: "t = t2\<lparr>time_to_resolution := Some (minutes_between (entry_time t2) now),
                    failure_reason := a_failure_reasons a, lesson_learned := a_lessons a,
                    suggested_improvements := a_improvements a\<rparr>"
    using resolve_trade_Resolved[OF assms(2)] by blast
  have id: "trade_id t = tid"
    using compute_outcome_fields(1)[OF t2] a0 assms(1)
    by (simp add: t apply_exit_fields ledger_keyed_def)
  show "outcome t \<noteq> PENDING"
    using compute_outcome_terminal[OF t2] by (auto simp: t)
  note st = resolve_trade_Resolved_state[OF assms(2)]
  show "active_trades e' tid = None"
    by (simp add: st update_pattern_frame)
  show "stored_trade e' tid = Some t"
    using find_save_trade_same[of t "db_trades e"]
    by (simp add: st update_pattern_frame stored_trade_def id)
  show "ledger_keyed e'"
    using assms(1) by (simp add: st update_pattern_frame ledger_keyed_def)
qed

text \<open>
  Claim C3. When \<open>resolve_trade\<close> resolves a trade of a ledger keyed by trade id, the trade it
  returns has a terminal outcome, is the persisted record of the id, and has left the ledger;
  after any sequence \<open>cs\<close> of further \<open>resolve_trade\<close> calls on any ids, a \<open>resolve_trade\<close>
  call on that id, with any arguments, returns the not-found error value and changes nothing,
  and the persisted record of the id is still the one the resolution stored.
\<close>

theorem resolved_trade_not_found_and_unchanged:
  assumes "ledger_keyed e"
    and "resolve_trade e tid x mf ma now = (Inr (Resolved t a l), e')"
  shows "outcome t \<noteq> PENDING \<and> active_trades e' tid = None \<and> stored_trade e' tid = Some t
       \<and> resolve_trade (resolve_calls e' cs) tid x' mf' ma' now'
            = (Inr TradeNotFound, resolve_calls e' cs)
       \<and> stored_trade (resolve_calls e' cs) tid = Some t"
  using resolve_trade_settles[OF assms]
    resolve_calls_invariant[of e' tid cs]
  by (simp add: resolve_trade_missing)


theorem resolved_trade_not_found_and_unchanged_witness:
  "ledger_keyed live_engine
   \<and> (\<exists>t a l e'. resolve_trade live_engine ''t1'' 103.5 None None 3600 = (Inr (Resolved t a l), e')
         \<and> outcome t = WIN \<and> active_trades e' ''t1'' = None \<and> stored_trade e' ''t1'' = Some t
         \<and> resolve_trade (resolve_calls e' [retry_call]) ''t1'' 90 None None 9000
              = (Inr TradeNotFound, resolve_calls e' [retry_call])
         \<and> stored_trade (resolve_calls e' [retry_call]) ''t1'' = Some t)"
proof -
  have k: "ledger_keyed live_engine"
    by (simp add: ledger_keyed_def live_engine_def pending_trade_def)
  have h1: "active_trades live_engine ''t1'' = Some (pending_trade ''t1'' ''fed_dovish'' ''LONG'' 100 103 98)"
    by (simp add: live_engine_def)
  have h2: "entry_price (pending_trade ''t1'' ''fed_dovish'' ''LONG'' 100 103 98) \<noteq> 0"
    by (simp add: pending_trade_def)
  obtain t a l e' where
    r: "resolve_trade live_engine ''t1'' 103.5 None None 3600 = (Inr (Resolved t a l), e')"
    using resolve_trade_returns[OF h1 h2] by blast
  obtain t0 t2 where a0: "active_trades live_engine ''t1'' = Some t0"
    and t2: "compute_outcome (apply_exit t0 103.5 None None 3600) 103.5 = Inr t2"
    and t: "t = t2\<lparr>time_to_resolution := Some (minutes_between (entry_time t2) 3600),
                    failure_reason := a_failure_reasons a, lesson_learned := a_lessons a,
                    suggested_improvements := a_improvements a\<rparr>"
    using resolve_trade_Resolved[OF r] by blast
  have "t0 = pending_trade ''t1'' ''fed_dovish'' ''LONG'' 100 103 98"
    using a0 h1 by simp
  then have w: "outcome t = WIN"
    using t2 by (auto simp: t compute_outcome_def Let_def apply_exit_def pending_trade_def
        split: if_splits)
  show ?thesis
    using resolved_trade_not_found_and_unchanged[OF k r, of "[retry_call]" 90 None None 9000] k r w
    by auto
qed


text \<open>
  Claim C4. The engine after a restart holds trade \<open>t1\<close> in the persisted store and not in
  the ledger. \<open>resolve_trade\<close> looks the id up through
  \<open>get_trades_for_pattern(pattern_name=None, limit=1000)\<close>, which selects no row, so the
  call returns the not-found error value and reconstructs nothing.
\<close>

theorem persisted_trade_outside_ledger_not_found:
  "stored_trade restart_engine ''t1'' = Some (pending_trade ''t1'' ''fed_dovish'' ''LONG'' 100 103 98)
   \<and> active_trades restart_engine ''t1'' = None
   \<and> resolve_trade restart_engine ''t1'' 103.5 None None 3600 = (Inr TradeNotFound, restart_engine)"
proof -
  have "active_trades restart_engine ''t1'' = None" by (simp add: restart_engine_def)
  then show ?thesis
    by (simp add: resolve_trade_missing stored_trade_def restart_engine_def pending_trade_def)
qed


text \<open>
  Claim C6. Resolving a live trade whose entry price is not zero returns the resolved trade; its
  \<open>actual_return\<close> is (exit - entry) / entry for a LONG trade and the negation of that for a
  SHORT trade, and its outcome is WIN on a target hit, otherwise LOSS on a stop hit, otherwise
  SCRATCH when the absolute return is below 0.5 percent, otherwise WIN or LOSS by the sign of the
  return. The witness is the trade of the example: LONG, entry 100, target 103, stop 98,
  exit 103.5, which resolves to WIN with return 0.035.
\<close>

theorem resolved_trade_return_and_outcome:
  assumes "active_trades e tid = Some t0" and "entry_price t0 \<noteq> 0"
    and "direction t0 = ''LONG'' \<or> direction t0 = ''SHORT''"
  shows "\<exists>t a l e'. resolve_trade e tid x mf ma now = (Inr (Resolved t a l), e')
       \<and> actual_return t = Some (claimed_return (direction t0) (entry_price t0) x)
       \<and> outcome t =
           claimed_outcome
             (if direction t0 = ''LONG'' then x \<ge> target_price t0 else x \<le> target_price t0)
             (if direction t0 = ''LONG'' then x \<le> stop_price t0 else x \<ge> stop_price t0)
             (claimed_return (direction t0) (entry_price t0) x)"
proof -
  obtain t2 a where t2: "compute_outcome (apply_exit t0 x mf ma now) x = Inr t2"
    and r: "resolve_trade e tid x mf ma now =
             (let t4 = t2\<lparr>time_to_resolution := Some (minutes_between (entry_time t2) now),
                          failure_reason := a_failure_reasons a, lesson_learned := a_lessons a,
                          suggested_improvements := a_improvements a\<rparr>;
                  r = update_pattern (e\<lparr>db_trades := save_trade (db_trades e) t4,
                                       active_trades := (active_trades e)(tid := None)\<rparr>) t4 a
              in (Inr (fst r), snd r))"
    using resolve_trade_live[OF assms(1,2), of x mf ma now] by blast
  define t4 where "t4 = t2\<lparr>time_to_resolution := Some (minutes_between (entry_time t2) now),
                          failure_reason := a_failure_reasons a, lesson_learned := a_lessons a,
                          suggested_improvements := a_improvements a\<rparr>"
  define e1 where "e1 = e\<lparr>db_trades := save_trade (db_trades e) t4,
                          active_trades := (active_trades e)(tid := None)\<rparr>"
  obtain l where l: "fst (update_pattern e1 t4 a) = Resolved t4 a l"
    using update_pattern_result by blast
  have "resolve_trade e tid x mf ma now = (Inr (fst (update_pattern e1 t4 a)), snd (update_pattern e1 t4 a))"
    using r by (simp add: Let_def t4_def e1_def)
  then have res: "resolve_trade e tid x mf ma now = (Inr (Resolved t4 a l), snd (update_pattern e1 t4 a))"
    using l by simp
  have ret: "actual_return t2 = Some (claimed_return (direction t0) (entry_price t0) x)"
    using t2 assms(2)
    by (auto simp: compute_outcome_def Let_def apply_exit_def claimed_return_def
        diff_divide_distrib split: if_splits)
  have oc: "outcome t2 = claimed_outcome
             (if direction t0 = ''LONG'' then x \<ge> target_price t0 else x \<le> target_price t0)
             (if direction t0 = ''LONG'' then x \<le> stop_price t0 else x \<ge> stop_price t0)
             (claimed_return (direction t0) (entry_price t0) x)"
    using t2 assms(2)
    by (auto simp: compute_outcome_def Let_def apply_exit_def claimed_return_def claimed_outcome_def
        diff_divide_distrib split: if_splits)
  show ?thesis
    using res ret oc by (intro exI[of _ t4] exI[of _ a] exI[of _ l] exI) (simp add: t4_def)
qed


theorem resolved_trade_return_and_outcome_witness:
  "active_trades live_engine ''t1'' = Some (pending_trade ''t1'' ''fed_dovish'' ''LONG'' 100 103 98)
   \<and> (\<exists>t a l e'. resolve_trade live_engine ''t1'' 103.5 None None 3600 = (Inr (Resolved t a l), e')
        \<and> actual_return t = Some 0.035 \<and> outcome t = WIN)"
proof -
  have h1: "active_trades live_engine ''t1'' = Some (pending_trade ''t1'' ''fed_dovish'' ''LONG'' 100 103 98)"
    by (simp add: live_engine_def)
  have h2: "entry_price (pending_trade ''t1'' ''fed_dovish'' ''LONG'' 100 103 98) \<noteq> 0"
    by (simp add: pending_trade_def)
  have h3: "direction (pending_trade ''t1'' ''fed_dovish'' ''LONG'' 100 103 98) = ''LONG''
            \<or> direction (pending_trade ''t1'' ''fed_dovish'' ''LONG'' 100 103 98) = ''SHORT''"
    by (simp add: pending_trade_def)
  show ?thesis
    using resolved_trade_return_and_outcome[OF h1 h2 h3, of "103.5" None None 3600] h1
    by (simp add: pending_trade_def claimed_return_def claimed_outcome_def)
qed





section \<open>Properties of the weights\<close>

lemma adjust_base_weight_bounds:
  assumes "0.3 \<le> w" "w \<le> 3"
  shows "0.3 \<le> adjust_base_weight wr avg w \<and> adjust_base_weight wr avg w \<le> 3"
  using assms by (auto simp: adjust_base_weight_def min_def max_def)

lemma effective_weight_tier:
  assumes "0 \<le> base_weight p"
  shows "0.7 * base_weight p \<le> effective_weight p \<and> effective_weight p \<le> 1.3 * base_weight p"
  using assms by (auto simp: effective_weight_def Let_def)

lemma learn_vix_base: "base_weight (fst (learn_vix trades p)) = base_weight p"
  by (simp add: learn_vix_def Let_def)

lemma learn_time_base: "base_weight (fst (learn_time trades p)) = base_weight p"
  by (simp add: learn_time_def Let_def)

lemma learn_stop_base: "base_weight (fst (learn_stop trades p)) = base_weight p"
  by (simp add: learn_stop_def Let_def)

lemma learn_target_base: "base_weight (fst (learn_target trades p)) = base_weight p"
  by (simp add: learn_target_def Let_def)

lemma learn_day_base: "base_weight (learn_day trades p) = base_weight p"
  by (simp add: learn_day_def Let_def)

lemma learn_counters_base: "base_weight (learn_counters trades p) = base_weight p"
  by (simp add: learn_counters_def)

lemma learn_weight_base:
  "base_weight (fst (learn_weight trades p)) = base_weight p \<or>
   (\<exists>wr avg. base_weight (fst (learn_weight trades p)) = adjust_base_weight wr avg (base_weight p))"
  by (auto simp: learn_weight_def Let_def)

lemma learn_steps_unfold:
  "fst (learn_steps trades p) =
     learn_counters trades (fst (learn_weight trades (learn_day trades
       (fst (learn_target trades (fst (learn_stop trades (fst (learn_time trades (fst (learn_vix trades p))))))))))) "
  by (simp add: learn_steps_def Let_def case_prod_beta)

lemma learn_steps_base:
  "base_weight (fst (learn_steps trades p)) = base_weight p \<or>
   (\<exists>wr avg. base_weight (fst (learn_steps trades p)) = adjust_base_weight wr avg (base_weight p))"
  using learn_weight_base[of trades "learn_day trades
       (fst (learn_target trades (fst (learn_stop trades (fst (learn_time trades (fst (learn_vix trades p)))))))) "]
  by (simp add: learn_steps_unfold learn_counters_base learn_day_base learn_target_base
      learn_stop_base learn_time_base learn_vix_base)

lemma update_counters_base: "base_weight (update_counters p t) = base_weight p"
  by (simp add: update_counters_def Let_def)

lemma apply_event_bounds:
  assumes "0.3 \<le> base_weight p" "base_weight p \<le> 3"
  shows "0.3 \<le> base_weight (apply_event p ev) \<and> base_weight (apply_event p ev) \<le> 3"
proof (cases ev)
  case (Resolution t)
  then show ?thesis using assms by (simp add: update_counters_base)
next
  case (LearningPass trades)
  then show ?thesis
    using assms learn_steps_base[of trades p] adjust_base_weight_bounds[OF assms]
    by auto
qed

lemma apply_events_bounds:
  assumes "0.3 \<le> base_weight p" "base_weight p \<le> 3"
  shows "0.3 \<le> base_weight (apply_events p evs) \<and> base_weight (apply_events p evs) \<le> 3"
  using assms
proof (induction evs arbitrary: p)
  case Nil
  then show ?case by (simp add: apply_events_def)
next
  case (Cons ev evs)
  have "apply_events p (ev # evs) = apply_events (apply_event p ev) evs"
    by (simp add: apply_events_def)
  then show ?case
    using Cons.IH[of "apply_event p ev"] apply_event_bounds[OF Cons.prems] by simp
qed

lemma update_counters_win:
  "outcome t = WIN \<Longrightarrow> base_weight p = w \<Longrightarrow>
   total_trades (update_counters p t) = total_trades p + 1 \<and> wins (update_counters p t) = wins p + 1
   \<and> base_weight (update_counters p t) = w"
  by (simp add: update_counters_def Let_def)

text \<open>
  Claim C2, as the code has it. The learning pass clamps the base weight, not the effective
  weight: a pattern whose base weight starts within [0.3, 3.0] keeps it there through every
  sequence of resolutions and learning passes, and its effective weight, the base weight times a
  tier factor between 0.7 and 1.3, is above 0.2 and below 4.0. The two bounds on the effective
  weight are not the products 0.7 * 0.3 and 1.3 * 3.0 themselves, which the program rounds.
\<close>

theorem weights_stay_bounded:
  assumes "0.3 \<le> base_weight p" and "base_weight p \<le> 3"
  shows "0.3 \<le> base_weight (apply_events p evs) \<and> base_weight (apply_events p evs) \<le> 3
       \<and> 0.2 < effective_weight (apply_events p evs) \<and> effective_weight (apply_events p evs) < 4"
proof -
  have b: "0.3 \<le> base_weight (apply_events p evs) \<and> base_weight (apply_events p evs) \<le> 3"
    using apply_events_bounds[OF assms] .
  then have "0 \<le> base_weight (apply_events p evs)" by simp
  from effective_weight_tier[OF this] b show ?thesis by simp
qed


theorem weights_stay_bounded_witness:
  "0.3 \<le> base_weight fed_emergency \<and> base_weight fed_emergency \<le> 3
   \<and> 0.3 \<le> base_weight (apply_events fed_emergency ten_wins)
   \<and> base_weight (apply_events fed_emergency ten_wins) \<le> 3
   \<and> 0.2 < effective_weight (apply_events fed_emergency ten_wins)
   \<and> effective_weight (apply_events fed_emergency ten_wins) < 4"
proof -
  have h1: "0.3 \<le> base_weight fed_emergency" by (simp add: fed_emergency_def new_pattern_def)
  have h2: "base_weight fed_emergency \<le> 3" by (simp add: fed_emergency_def new_pattern_def)
  show ?thesis using weights_stay_bounded[OF h1 h2, of ten_wins] h1 h2 by simp
qed


text \<open>
  Claim C2 as stated fails: the seed pattern \<open>fed_emergency\<close> has base weight 3.0, and after
  ten winning trades its win rate is above 0.65, so its effective weight is 3.0 times 1.3, which
  is above 3.0.
\<close>

theorem effective_weight_exceeds_three:
  "base_weight fed_emergency = 3
   \<and> total_trades (apply_events fed_emergency ten_wins) = 10
   \<and> wins (apply_events fed_emergency ten_wins) = 10
   \<and> effective_weight (apply_events fed_emergency ten_wins) > 3"
proof -
  have w: "outcome winning_trade = WIN" by (simp add: winning_trade_def closed_trade_def)
  have b0: "base_weight fed_emergency = 3 \<and> total_trades fed_emergency = 0 \<and> wins fed_emergency = 0"
    by (simp add: fed_emergency_def new_pattern_def)
  have c: "total_trades (apply_events fed_emergency ten_wins) = 10
      \<and> wins (apply_events fed_emergency ten_wins) = 10
      \<and> base_weight (apply_events fed_emergency ten_wins) = 3"
    using b0 by (simp add: apply_events_def ten_wins_def update_counters_win[OF w])
  then show ?thesis using b0
    by (simp add: effective_weight_def win_rate_def Let_def)
qed


section \<open>Properties of the pattern matcher\<close>

lemma multiplier_stage:
  "(case truthy_get d k of None \<Rightarrow> s | Some m \<Rightarrow> s * m)
     = s * (case d k of None \<Rightarrow> 1 | Some m \<Rightarrow> if m = 0 then 1 else m)"
  by (simp add: truthy_get_def split: option.splits)

lemma apply_context_factors:
  "apply_context p ctx s = s * vix_factor p ctx * time_factor p ctx * day_factor p ctx"
proof (cases ctx)
  case None
  then show ?thesis
    by (simp add: apply_context_def vix_factor_def time_factor_def day_factor_def)
next
  case (Some c)
  have v: "(case ctx_vix_regime c of None \<Rightarrow> s
            | Some r \<Rightarrow> if r = [] then s
                        else (case truthy_get (vix_multipliers p) r of None \<Rightarrow> s | Some m \<Rightarrow> s * m))
           = s * vix_factor p ctx"
    by (cases "ctx_vix_regime c") (simp_all add: Some vix_factor_def multiplier_stage split: option.splits)
  have t: "\<And>s1. (case ctx_time_of_day c of None \<Rightarrow> s1
            | Some b \<Rightarrow> if b = [] then s1
                        else (case truthy_get (time_multipliers p) b of None \<Rightarrow> s1 | Some m \<Rightarrow> s1 * m))
           = s1 * time_factor p ctx"
    by (cases "ctx_time_of_day c") (simp_all add: Some time_factor_def multiplier_stage split: option.splits)
  have d: "\<And>s2. (case ctx_day_of_week c of None \<Rightarrow> s2
            | Some d \<Rightarrow> (case truthy_get (day_multipliers p) d of None \<Rightarrow> s2 | Some m \<Rightarrow> s2 * m))
           = s2 * day_factor p ctx"
    by (cases "ctx_day_of_week c") (simp_all add: Some day_factor_def multiplier_stage)
  show ?thesis
    unfolding apply_context_def Let_def Some option.case v t d by (rule refl)
qed

lemma match_one_keywords:
  assumes "keywords_p p \<noteq> []"
  shows "match_one p txt ctx =
           (if hits p txt \<ge> min 2 (length (keywords_p p))
            then Inr (Some (make_match p
                   (real (hits p txt) / real (length (keywords_p p)) * effective_weight p
                      * vix_factor p ctx * time_factor p ctx * day_factor p ctx)))
            else Inr None)"
  using assms by (simp add: match_one_def min_hits_def apply_context_factors)

lemma match_loop_keywords:
  assumes "\<forall>p\<in>set ps. keywords_p p \<noteq> []"
  shows "match_loop ps txt ctx acc =
           Inr (acc @ map (\<lambda>p. make_match p
                   (real (hits p txt) / real (length (keywords_p p)) * effective_weight p
                      * vix_factor p ctx * time_factor p ctx * day_factor p ctx))
                          (filter (\<lambda>p. hits p txt \<ge> min 2 (length (keywords_p p))) ps))"
  using assms
proof (induction ps arbitrary: acc)
  case Nil
  then show ?case by simp
next
  case (Cons p ps)
  then have k: "keywords_p p \<noteq> []" and rest: "\<forall>q\<in>set ps. keywords_p q \<noteq> []" by simp_all
  show ?case
    by (simp add: match_one_keywords[OF k] Cons.IH[OF rest])
qed

lemma hits_le: "hits p txt \<le> length (keywords_p p)"
  by (simp add: hits_def)

lemma fed_title_hits: "hits fed_dovish (lower fed_title) = 3"
  by (simp add: hits_def fed_dovish_def new_pattern_def fed_title_def lower_def lower_char_def)

lemma tuned_title_hits: "hits tuned_dovish (lower fed_title) = 3"
  by (simp add: hits_def tuned_dovish_def fed_dovish_def new_pattern_def fed_title_def lower_def
      lower_char_def)

text \<open>
  Claim C5, as the code has it. When every pattern of the snapshot has at least one keyword,
  \<open>match\<close>, with or without a market context, returns, sorted by descending score, one result
  for each pattern whose number of keyword phrases contained in the lower-cased text is at least
  min(2, number of keywords), and no result for any other pattern. The score of a result is the
  base score (hits / keyword count) * effective weight, multiplied in turn by the pattern's
  factors for the VIX regime, the time of day and the weekday of the context; without a context
  the three factors are 1 and the score is the base score. A pattern with one keyword fires
  exactly when it has one hit. The witness is the example, \<open>fed_dovish\<close> against the headline
  with 3 hits of 5 keywords and score (3/5) * effective weight, and the same pattern with a
  learned regime multiplier matched under a context.
\<close>

theorem match_fires_on_min_hits:
  assumes "\<forall>p\<in>set ps. keywords_p p \<noteq> []"
  shows "match_py ps text ctx =
           Inr (sort_key (\<lambda>m. - m_score m)
                  (map (\<lambda>p. make_match p
                          (real (hits p (lower text)) / real (length (keywords_p p)) * effective_weight p
                             * vix_factor p ctx * time_factor p ctx * day_factor p ctx))
                       (filter (\<lambda>p. hits p (lower text) \<ge> min 2 (length (keywords_p p))) ps)))
       \<and> (\<forall>p\<in>set ps. vix_factor p None = 1 \<and> time_factor p None = 1 \<and> day_factor p None = 1)
       \<and> (\<forall>p\<in>set ps. length (keywords_p p) = 1 \<longrightarrow>
             (hits p (lower text) \<ge> min 2 (length (keywords_p p)) \<longleftrightarrow> hits p (lower text) = 1))"
proof (intro conjI)
  show "match_py ps text ctx =
           Inr (sort_key (\<lambda>m. - m_score m)
                  (map (\<lambda>p. make_match p
                          (real (hits p (lower text)) / real (length (keywords_p p)) * effective_weight p
                             * vix_factor p ctx * time_factor p ctx * day_factor p ctx))
                       (filter (\<lambda>p. hits p (lower text) \<ge> min 2 (length (keywords_p p))) ps)))"
    by (simp add: match_py_def match_loop_keywords[OF assms])
next
  show "\<forall>p\<in>set ps. vix_factor p None = 1 \<and> time_factor p None = 1 \<and> day_factor p None = 1"
    by (simp add: vix_factor_def time_factor_def day_factor_def)
next
  show "\<forall>p\<in>set ps. length (keywords_p p) = 1 \<longrightarrow>
             (hits p (lower text) \<ge> min 2 (length (keywords_p p)) \<longleftrightarrow> hits p (lower text) = 1)"
  proof (intro ballI impI)
    fix p :: PatternEvolution assume "length (keywords_p p) = 1"
    then show "hits p (lower text) \<ge> min 2 (length (keywords_p p)) \<longleftrightarrow> hits p (lower text) = 1"
      using hits_le[of p "lower text"] by auto
  qed
qed


theorem match_fires_on_min_hits_witness:
  "keywords_p fed_dovish \<noteq> [] \<and> keywords_p tuned_dovish \<noteq> []
   \<and> hits fed_dovish (lower fed_title) = 3
   \<and> length (keywords_p fed_dovish) = 5
   \<and> match_py [fed_dovish] fed_title None
        = Inr [make_match fed_dovish (3 / 5 * effective_weight fed_dovish)]
   \<and> match_py [tuned_dovish] fed_title (Some normal_context)
        = Inr [make_match tuned_dovish (3 / 5 * effective_weight tuned_dovish * 1.5)]"
proof -
  have h: "\<forall>p\<in>set [fed_dovish]. keywords_p p \<noteq> []"
    by (simp add: fed_dovish_def new_pattern_def)
  have h': "\<forall>p\<in>set [tuned_dovish]. keywords_p p \<noteq> []"
    by (simp add: tuned_dovish_def fed_dovish_def new_pattern_def)
  have n: "length (keywords_p fed_dovish) = 5" "length (keywords_p tuned_dovish) = 5"
    by (simp_all add: tuned_dovish_def fed_dovish_def new_pattern_def)
  have f: "vix_factor tuned_dovish (Some normal_context) = 1.5"
    "time_factor tuned_dovish (Some normal_context) = 1"
    "day_factor tuned_dovish (Some normal_context) = 1"
    by (simp_all add: vix_factor_def time_factor_def day_factor_def normal_context_def
        tuned_dovish_def fed_dovish_def new_pattern_def)
  have f0: "vix_factor fed_dovish None = 1" "time_factor fed_dovish None = 1" "day_factor fed_dovish None = 1"
    by (simp_all add: vix_factor_def time_factor_def day_factor_def)
  show ?thesis
    using match_fires_on_min_hits[OF h, of fed_title None]
      match_fires_on_min_hits[OF h', of fed_title "Some normal_context"]
      h h' n fed_title_hits tuned_title_hits
    by (simp add: f f0)
qed


text \<open>
  Claim C5 as stated fails on a pattern without keywords, which \<open>PatternEvolution(name=..)\<close>
  builds by default: zero hits reach the threshold min(2, 0) = 0, and the score divides by the
  keyword count, so \<open>match\<close> raises instead of returning a result.
\<close>

theorem match_without_keywords_raises:
  "hits bare_pattern (lower fed_title) \<ge> min 2 (length (keywords_p bare_pattern))
   \<and> match_py [bare_pattern] fed_title None = Inl ZeroDivisionError"
  by (simp add: match_py_def match_one_def hits_def min_hits_def bare_pattern_def new_pattern_def)

section \<open>Properties of the learning pass\<close>

lemma length_get_trades:
  "length (get_trades_for_pattern rows (Some n) k) = min (length (filter (\<lambda>t. pattern_name t = n) rows)) k"
  by (simp add: get_trades_for_pattern_def)

lemma filter_get_trades:
  assumes "length (filter (\<lambda>t. pattern_name t = n) rows) \<le> k"
  shows "length (filter P (get_trades_for_pattern rows (Some n) k))
           = length (filter P (filter (\<lambda>t. pattern_name t = n) rows))"
  using assms by (simp add: get_trades_for_pattern_def filter_sort)

lemma learn_result_cases:
  "learn_from_pattern_history e p =
     (if length (pattern_rows e (name p)) < 5
      then (InsufficientData (length (pattern_rows e (name p))), e)
      else (LearningReport
              \<lparr> r_pattern = name p,
                r_trades_analyzed = min (length (pattern_rows e (name p))) 100,
                r_adjustments = snd (learn_steps (get_trades_for_pattern (db_trades e) (Some (name p)) 100) p),
                r_new_parameters = fst (learn_steps (get_trades_for_pattern (db_trades e) (Some (name p)) 100) p) \<rparr>,
            e\<lparr>db_patterns := save_pattern (db_patterns e)
                 (fst (learn_steps (get_trades_for_pattern (db_trades e) (Some (name p)) 100) p))\<rparr>))"
  by (auto simp: learn_from_pattern_history_def Let_def case_prod_beta length_get_trades
      pattern_rows_def min_trades_for_learning_def)

lemma pending_rows:
  "length (pattern_rows pending_engine ''fed_dovish'') = 5"
  "length (resolved_rows pending_engine ''fed_dovish'') = 0"
  by (simp_all add: resolved_rows_def pattern_rows_def pending_engine_def pending_trade_def)

text \<open>
  Claim C7, as the code has it. \<open>learn_from_pattern_history\<close> returns the insufficient-data
  status, and changes nothing, exactly when the store holds fewer than 5 rows for the pattern,
  whatever their outcome; with 5 rows or more it produces a report on the (at most 100) rows it
  fetched.
\<close>

theorem learn_insufficient_iff_few_rows:
  "(is_insufficient (fst (learn_from_pattern_history e p)) \<longleftrightarrow> length (pattern_rows e (name p)) < 5)
   \<and> (length (pattern_rows e (name p)) < 5 \<longrightarrow>
        learn_from_pattern_history e p = (InsufficientData (length (pattern_rows e (name p))), e))
   \<and> (5 \<le> length (pattern_rows e (name p)) \<longrightarrow>
        (\<exists>rep. fst (learn_from_pattern_history e p) = LearningReport rep
               \<and> r_trades_analyzed rep = min (length (pattern_rows e (name p))) 100))"
  by (simp add: learn_result_cases is_insufficient_def)


theorem learn_insufficient_iff_few_rows_witness:
  "length (pattern_rows idle_engine (name fed_dovish)) < 5
   \<and> learn_from_pattern_history idle_engine fed_dovish = (InsufficientData 1, idle_engine)
   \<and> 5 \<le> length (pattern_rows pending_engine (name fed_dovish))
   \<and> (\<exists>rep. fst (learn_from_pattern_history pending_engine fed_dovish) = LearningReport rep
             \<and> r_trades_analyzed rep = 5)"
proof -
  have n: "name fed_dovish = ''fed_dovish''" by (simp add: fed_dovish_def new_pattern_def)
  have i: "length (pattern_rows idle_engine ''fed_dovish'') = 1"
    by (simp add: pattern_rows_def idle_engine_def closed_trade_def pending_trade_def)
  show ?thesis
    using learn_insufficient_iff_few_rows[of idle_engine fed_dovish]
      learn_insufficient_iff_few_rows[of pending_engine fed_dovish]
    by (simp add: n i pending_rows)
qed



text \<open>
  Claim C7 as stated fails: with five pending trades and no resolved one the pattern has fewer
  than 5 resolved trades, and the learning pass still produces a report, since the pending rows
  count towards the minimum.
\<close>

theorem learn_counts_pending_rows:
  "length (resolved_rows pending_engine (name fed_dovish)) < 5
   \<and> \<not> is_insufficient (fst (learn_from_pattern_history pending_engine fed_dovish))"
proof -
  have n: "name fed_dovish = ''fed_dovish''" by (simp add: fed_dovish_def new_pattern_def)
  show ?thesis
    by (simp add: learn_result_cases is_insufficient_def n pending_rows)
qed


lemma learn_vix_kept: "scratches (fst (learn_vix trades p)) = scratches p" "name (fst (learn_vix trades p)) = name p"
  by (simp_all add: learn_vix_def Let_def)

lemma learn_time_kept: "scratches (fst (learn_time trades p)) = scratches p" "name (fst (learn_time trades p)) = name p"
  by (simp_all add: learn_time_def Let_def)

lemma learn_stop_kept: "scratches (fst (learn_stop trades p)) = scratches p" "name (fst (learn_stop trades p)) = name p"
  by (simp_all add: learn_stop_def Let_def)

lemma learn_target_kept: "scratches (fst (learn_target trades p)) = scratches p" "name (fst (learn_target trades p)) = name p"
  by (simp_all add: learn_target_def Let_def)

lemma learn_day_kept: "scratches (learn_day trades p) = scratches p" "name (learn_day trades p) = name p"
  by (simp_all add: learn_day_def Let_def)

lemma learn_weight_kept: "scratches (fst (learn_weight trades p)) = scratches p" "name (fst (learn_weight trades p)) = name p"
  by (simp_all add: learn_weight_def Let_def)

lemmas learn_kept = learn_vix_kept learn_time_kept learn_stop_kept learn_target_kept
  learn_day_kept learn_weight_kept

text \<open>What a learning pass leaves in the four counters.\<close>

lemma learn_steps_counters:
  "counters (fst (learn_steps trades p)) =
     (int (length trades),
      int (length (filter (\<lambda>t. outcome t = WIN) trades)),
      int (length (filter (\<lambda>t. outcome t = LOSS) trades)),
      scratches p)"
  "name (fst (learn_steps trades p)) = name p"
  by (simp_all add: learn_steps_unfold counters_def learn_counters_def learn_kept)

text \<open>A resolution that does not start a learning pass keeps the counters consistent.\<close>

lemma update_counters_sum:
  "total_trades p = wins p + losses p + scratches p \<Longrightarrow>
   total_trades (update_counters p t) = wins (update_counters p t) + losses (update_counters p t)
     + scratches (update_counters p t)"
  by (simp add: update_counters_def Let_def)

lemma update_pattern_learning:
  assumes "get_pattern (db_patterns e) (pattern_name t) = Some p"
    and "5 \<le> total_trades (update_counters p t)" and "total_trades (update_counters p t) mod 5 = 0"
  shows "db_patterns (snd (update_pattern e t a)) =
           db_patterns (snd (learn_from_pattern_history
              (e\<lparr>db_patterns := save_pattern (db_patterns e) (update_counters p t)\<rparr>) (update_counters p t)))"
  using assms by (simp add: update_pattern_def Let_def case_prod_beta)

text \<open>
  Claim C1 at a failing input. The counters of \<open>fed_dovish\<close> are (4, 4, 0, 0) and a second trade
  of the pattern is pending when trade \<open>t5\<close> is resolved as a win. The resolution brings the
  counters to (5, 5, 0, 0) and starts a learning pass, which sets \<open>total_trades\<close> to the number
  of fetched rows, the pending one included, and rewrites \<open>wins\<close> and \<open>losses\<close> but not
  \<open>scratches\<close>: the persisted counters are (6, 5, 0, 0), and 6 is not 5 + 0 + 0.
\<close>

theorem learning_pass_breaks_counter_sum:
  "map counters (db_patterns busy_engine) = [(4, 4, 0, 0)]
   \<and> map counters (db_patterns (snd (resolve_trade busy_engine ''t5'' 103.5 None None 3600))) = [(6, 5, 0, 0)]"
proof -
  define t0 where "t0 = pending_trade ''t5'' ''fed_dovish'' ''LONG'' 100 103 98"
  define p0 where "p0 = fed_dovish\<lparr>total_trades := 4, wins := 4, total_return := 0.14\<rparr>"
  have before: "map counters (db_patterns busy_engine) = [(4, 4, 0, 0)]"
    by (simp add: busy_engine_def counters_def fed_dovish_def new_pattern_def)
  have h1: "active_trades busy_engine ''t5'' = Some t0"
    by (simp add: busy_engine_def t0_def)
  have h2: "entry_price t0 \<noteq> 0"
    by (simp add: t0_def pending_trade_def)
  obtain t2 a where t2: "compute_outcome (apply_exit t0 103.5 None None 3600) 103.5 = Inr t2"
    and r: "resolve_trade busy_engine ''t5'' 103.5 None None 3600 =
             (let t4 = t2\<lparr>time_to_resolution := Some (minutes_between (entry_time t2) 3600),
                          failure_reason := a_failure_reasons a, lesson_learned := a_lessons a,
                          suggested_improvements := a_improvements a\<rparr>;
                  r = update_pattern (busy_engine\<lparr>db_trades := save_trade (db_trades busy_engine) t4,
                                       active_trades := (active_trades busy_engine)(''t5'' := None)\<rparr>) t4 a
              in (Inr (fst r), snd r))"
    using resolve_trade_live[OF h1 h2, of "103.5" None None 3600] by blast
  define t4 where "t4 = t2\<lparr>time_to_resolution := Some (minutes_between (entry_time t2) 3600),
                          failure_reason := a_failure_reasons a, lesson_learned := a_lessons a,
                          suggested_improvements := a_improvements a\<rparr>"
  define e1 where "e1 = busy_engine\<lparr>db_trades := save_trade (db_trades busy_engine) t4,
                          active_trades := (active_trades busy_engine)(''t5'' := None)\<rparr>"
  have res: "snd (resolve_trade busy_engine ''t5'' 103.5 None None 3600) = snd (update_pattern e1 t4 a)"
    using r by (simp add: Let_def t4_def e1_def)
  have id4: "trade_id t4 = ''t5''" and pn4: "pattern_name t4 = ''fed_dovish''"
    using compute_outcome_fields(1,8)[OF t2]
    by (simp_all add: t4_def apply_exit_def t0_def pending_trade_def)
  have oc4: "outcome t4 = WIN"
    using t2 by (auto simp: t4_def compute_outcome_def Let_def apply_exit_def t0_def pending_trade_def
        split: if_splits)
  have pats: "db_patterns e1 = [p0]"
    by (simp add: e1_def busy_engine_def p0_def)
  have n0: "name p0 = ''fed_dovish''"
    by (simp add: p0_def fed_dovish_def new_pattern_def)
  have gp: "get_pattern (db_patterns e1) (pattern_name t4) = Some p0"
    by (simp add: pats pn4 get_pattern_def n0)
  define p1 where "p1 = update_counters p0 t4"
  have c1: "total_trades p1 = 5 \<and> scratches p1 = 0 \<and> name p1 = ''fed_dovish''"
    using oc4 by (simp add: p1_def update_counters_def Let_def p0_def fed_dovish_def new_pattern_def)
  define e2 where "e2 = e1\<lparr>db_patterns := save_pattern (db_patterns e1) p1\<rparr>"
  have rows: "db_trades e2 =
      [closed_trade ''w1'' ''fed_dovish'' 100 103 98 WIN 103.5,
       closed_trade ''w2'' ''fed_dovish'' 100 103 98 WIN 103.5,
       closed_trade ''w3'' ''fed_dovish'' 100 103 98 WIN 103.5,
       closed_trade ''w4'' ''fed_dovish'' 100 103 98 WIN 103.5,
       pending_trade ''t6'' ''fed_dovish'' ''LONG'' 100 103 98, t4]"
    by (simp add: e2_def e1_def busy_engine_def save_trade_def id4 closed_trade_def pending_trade_def)
  have len: "length (pattern_rows e2 ''fed_dovish'') = 6"
    by (simp add: pattern_rows_def rows pn4 closed_trade_def pending_trade_def)
  define trades where "trades = get_trades_for_pattern (db_trades e2) (Some ''fed_dovish'') 100"
  have k: "length (filter (\<lambda>t. pattern_name t = ''fed_dovish'') (db_trades e2)) \<le> 100"
    using len by (simp add: pattern_rows_def)
  have lt: "length trades = 6"
    using len by (simp add: trades_def length_get_trades pattern_rows_def)
  have lw: "length (filter (\<lambda>t. outcome t = WIN) trades) = 5"
    unfolding trades_def filter_get_trades[OF k]
    by (simp add: rows pn4 oc4 closed_trade_def pending_trade_def)
  have ll: "length (filter (\<lambda>t. outcome t = LOSS) trades) = 0"
    unfolding trades_def filter_get_trades[OF k]
    by (simp add: rows pn4 oc4 closed_trade_def pending_trade_def)
  define p2 where "p2 = fst (learn_steps trades p1)"
  have c2: "counters p2 = (6, 5, 0, 0)" and n2: "name p2 = ''fed_dovish''"
    using learn_steps_counters[of trades p1] c1 lt lw ll by (simp_all add: p2_def)
  have "db_patterns (snd (update_pattern e1 t4 a)) = db_patterns (snd (learn_from_pattern_history e2 p1))"
    using update_pattern_learning[OF gp, of a] c1 by (simp add: p1_def e2_def)
  also have "\<dots> = save_pattern (db_patterns e2) p2"
    using len c1 by (simp add: learn_result_cases p2_def trades_def)
  also have "\<dots> = [p2]"
    using c1 n0 n2 by (simp add: e2_def pats save_pattern_def)
  finally show ?thesis
    using before res c2 by simp
qed

section \<open>Properties of the stop-distance rule\<close>

lemma analyze_stops_cases:
  assumes "\<not> length (stop_losses trades) < 3"
  shows "optimal_stop (analyze_stops trades) =
           (if widening_fires (stop_losses trades) then Some (recommended_stop (stop_losses trades)) else None)"
    and "widening_fires (stop_losses trades) \<Longrightarrow>
           stop_confidence (analyze_stops trades) = loss_confidence (stop_losses trades)"
  using assms
  by (simp_all add: analyze_stops_def Let_def widening_fires_def recommended_stop_def loss_confidence_def)

lemma learn_stop_value:
  "optimal_stop_pct (fst (learn_stop trades q)) =
     (if stop_gate (stop_losses trades) (optimal_stop_pct q)
      then recommended_stop (stop_losses trades) else optimal_stop_pct q)"
proof (cases "length (stop_losses trades) < 3")
  case True
  then have "\<not> loss_confidence (stop_losses trades) > 0.7"
    by (simp add: loss_confidence_def min_def)
  then show ?thesis using True
    by (simp add: learn_stop_def analyze_stops_def Let_def truthy_def stop_gate_def)
next
  case False
  show ?thesis
  proof (cases "widening_fires (stop_losses trades)")
    case True
    then show ?thesis
      using analyze_stops_cases[OF False]
      by (simp add: learn_stop_def Let_def truthy_def stop_gate_def confidence_threshold_def)
  next
    case nf: False
    then show ?thesis
      using analyze_stops_cases(1)[OF False]
      by (simp add: learn_stop_def Let_def truthy_def stop_gate_def)
  qed
qed

lemma stop_kept:
  "optimal_stop_pct (fst (learn_vix trades p)) = optimal_stop_pct p"
  "optimal_stop_pct (fst (learn_time trades p)) = optimal_stop_pct p"
  "optimal_stop_pct (fst (learn_target trades p)) = optimal_stop_pct p"
  "optimal_stop_pct (learn_day trades p) = optimal_stop_pct p"
  "optimal_stop_pct (fst (learn_weight trades p)) = optimal_stop_pct p"
  "optimal_stop_pct (learn_counters trades p) = optimal_stop_pct p"
  by (simp_all add: learn_vix_def learn_time_def learn_target_def learn_day_def learn_weight_def
      learn_counters_def Let_def)

lemma learn_steps_stop:
  "optimal_stop_pct (fst (learn_steps trades p)) =
     (if stop_gate (stop_losses trades) (optimal_stop_pct p)
      then recommended_stop (stop_losses trades) else optimal_stop_pct p)"
  by (simp add: learn_steps_unfold stop_kept learn_stop_value)

lemma zero_stop_facts:
  "stop_losses zero_stop_losses = zero_stop_losses"
  "loss_trades zero_stop_losses = zero_stop_losses"
  "length zero_stop_losses = 8"
  "tight_stops zero_stop_losses = zero_stop_losses"
  "mean (map planned_stop zero_stop_losses) = 0"
  by (simp_all add: zero_stop_losses_def stop_losses_def loss_trades_def tight_stops_def mean_def
      exceeded_by_def adverse_move_def planned_stop_def closed_trade_def pending_trade_def truthy_def)

lemma tight_facts:
  "stop_losses tight_losses = tight_losses"
  "length tight_losses = 8"
  "tight_stops tight_losses = tight_losses"
  "mean (map planned_stop tight_losses) = 0.02"
  "stop_losses (take 7 tight_losses) = take 7 tight_losses"
  "length (take 7 tight_losses) = 7"
  by (simp_all add: tight_losses_def stop_losses_def tight_stops_def mean_def
      exceeded_by_def adverse_move_def planned_stop_def closed_trade_def pending_trade_def truthy_def)

lemma stop_losses_filter:
  "stop_losses trades = filter (\<lambda>t. truthy (max_adverse t) \<and> entry_price t \<noteq> 0) (loss_trades trades)"
  by (simp add: stop_losses_def loss_trades_def conj_commute conj_left_commute)

lemma stop_losses_plain:
  assumes "list_all plain_loss (loss_trades trades)"
  shows "stop_losses trades = loss_trades trades"
proof -
  have "\<forall>t\<in>set (loss_trades trades). truthy (max_adverse t) \<and> entry_price t \<noteq> 0"
    using assms by (simp add: list_all_iff plain_loss_def)
  then show ?thesis
    by (simp add: stop_losses_filter)
qed

lemma tight_test_plain:
  assumes "plain_loss t"
  shows "(exceeded_by t < 0.005) = within_half_point t"
proof -
  have "adverse_move t - planned_stop t > - 0.005"
    using assms by (simp add: plain_loss_def)
  then show ?thesis
    unfolding exceeded_by_def within_half_point_def by linarith
qed

lemma tight_stops_plain:
  assumes "list_all plain_loss ls"
  shows "tight_stops ls = filter within_half_point ls"
  unfolding tight_stops_def
proof (rule filter_cong[OF refl])
  fix t assume "t \<in> set ls"
  then have "plain_loss t"
    using assms unfolding list_all_iff by blast
  then show "(exceeded_by t < 0.005) = within_half_point t"
    by (rule tight_test_plain)
qed

lemma stop_gate_plain:
  assumes "list_all plain_loss ls"
  shows "stop_gate ls cur = claimed_stop_gate ls cur"
proof -
  have "widening_fires ls = mostly_within_half_point ls"
    unfolding widening_fires_def mostly_within_half_point_def tight_stops_plain[OF assms]
    by (auto simp: field_simps)
  then show ?thesis
    by (simp add: stop_gate_def claimed_stop_gate_def)
qed

lemma low_confidence_keeps_stop:
  assumes "loss_confidence (loss_trades trades) \<le> 0.7"
  shows "optimal_stop_pct (fst (learn_steps trades p)) = optimal_stop_pct p"
proof -
  have "length (stop_losses trades) \<le> length (loss_trades trades)"
    by (simp add: stop_losses_filter)
  then have "loss_confidence (stop_losses trades) \<le> loss_confidence (loss_trades trades)"
    by (simp add: loss_confidence_def min_def divide_right_mono)
  then have "\<not> stop_gate (stop_losses trades) (optimal_stop_pct p)"
    using assms by (simp add: stop_gate_def)
  then show ?thesis by (simp add: learn_steps_stop)
qed

lemmas stop_example_defs = loss_trades_def stop_losses_def tight_stops_def mean_def exceeded_by_def
  adverse_move_def planned_stop_def closed_trade_def pending_trade_def truthy_def
  within_half_point_def plain_loss_def

lemma zero_stop_claimed:
  "filter within_half_point zero_stop_losses = zero_stop_losses"
  by (simp add: zero_stop_losses_def stop_example_defs)

lemma tight_claimed:
  "loss_trades tight_losses = tight_losses"
  "filter within_half_point tight_losses = tight_losses"
  "list_all plain_loss tight_losses"
  "loss_trades (take 7 tight_losses) = take 7 tight_losses"
  by (simp_all add: tight_losses_def stop_example_defs)

lemma overshot_facts:
  "loss_trades overshot_losses = overshot_losses"
  "filter within_half_point overshot_losses = []"
  "list_all plain_loss overshot_losses"
  "length overshot_losses = 8"
  "mean (map planned_stop overshot_losses) = 0.02"
  by (simp_all add: overshot_losses_def stop_example_defs)

text \<open>
  Claim C8, as the code has it. On a history whose LOSS trades all record their adverse
  excursion and none of which closed half a point or more short of its planned stop, a learning
  pass changes the optimal stop distance exactly when more than half of the LOSS trades had an
  adverse excursion within 0.5 percentage points of the planned stop, the confidence
  min(1, loss count / 10) exceeds 0.70, and the recommended value (average planned stop times
  1.3, capped at 5 percent) is not zero and differs from the current stop by more than 0.5
  percentage points; the new value is the recommended one. On every history, a confidence of at
  most 0.70 leaves the stop as it is. Losses that closed short of the stop are outside the
  statement.
\<close>

theorem stop_mutated_iff_gate:
  "(list_all plain_loss (loss_trades trades)
      \<and> change_off_threshold (loss_trades trades) (optimal_stop_pct p) \<longrightarrow>
        (optimal_stop_pct (fst (learn_steps trades p)) \<noteq> optimal_stop_pct p
           \<longleftrightarrow> claimed_stop_gate (loss_trades trades) (optimal_stop_pct p))
      \<and> (claimed_stop_gate (loss_trades trades) (optimal_stop_pct p) \<longrightarrow>
           optimal_stop_pct (fst (learn_steps trades p)) = recommended_stop (loss_trades trades)))
   \<and> (loss_confidence (loss_trades trades) \<le> 0.7 \<longrightarrow>
        optimal_stop_pct (fst (learn_steps trades p)) = optimal_stop_pct p)"
proof (intro conjI impI)
  assume h: "list_all plain_loss (loss_trades trades)
      \<and> change_off_threshold (loss_trades trades) (optimal_stop_pct p)"
  then have pl: "list_all plain_loss (loss_trades trades)" by simp
  have v: "optimal_stop_pct (fst (learn_steps trades p)) =
     (if claimed_stop_gate (loss_trades trades) (optimal_stop_pct p)
      then recommended_stop (loss_trades trades) else optimal_stop_pct p)"
    using stop_gate_plain[OF pl] by (simp add: learn_steps_stop stop_losses_plain[OF pl])
  show "optimal_stop_pct (fst (learn_steps trades p)) \<noteq> optimal_stop_pct p
           \<longleftrightarrow> claimed_stop_gate (loss_trades trades) (optimal_stop_pct p)"
    by (auto simp: v claimed_stop_gate_def)
  show "optimal_stop_pct (fst (learn_steps trades p)) = recommended_stop (loss_trades trades)"
    if "claimed_stop_gate (loss_trades trades) (optimal_stop_pct p)"
    using that by (simp add: v)
next
  assume "loss_confidence (loss_trades trades) \<le> 0.7"
  then show "optimal_stop_pct (fst (learn_steps trades p)) = optimal_stop_pct p"
    by (rule low_confidence_keeps_stop)
qed


theorem stop_mutated_iff_gate_witness:
  "list_all plain_loss (loss_trades tight_losses)
   \<and> change_off_threshold (loss_trades tight_losses) (optimal_stop_pct fed_dovish)
   \<and> claimed_stop_gate (loss_trades tight_losses) (optimal_stop_pct fed_dovish)
   \<and> optimal_stop_pct (fst (learn_steps tight_losses fed_dovish)) \<noteq> optimal_stop_pct fed_dovish
   \<and> optimal_stop_pct (fst (learn_steps tight_losses fed_dovish)) = recommended_stop (loss_trades tight_losses)
   \<and> list_all plain_loss (loss_trades overshot_losses)
   \<and> change_off_threshold (loss_trades overshot_losses) (optimal_stop_pct fed_dovish)
   \<and> \<not> claimed_stop_gate (loss_trades overshot_losses) (optimal_stop_pct fed_dovish)
   \<and> optimal_stop_pct (fst (learn_steps overshot_losses fed_dovish)) = optimal_stop_pct fed_dovish
   \<and> loss_confidence (loss_trades (take 7 tight_losses)) \<le> 0.7
   \<and> optimal_stop_pct (fst (learn_steps (take 7 tight_losses) fed_dovish)) = optimal_stop_pct fed_dovish"
proof -
  have s: "optimal_stop_pct fed_dovish = 0.02"
    by (simp add: fed_dovish_def new_pattern_def)
  have r: "recommended_stop tight_losses = 0.026" "recommended_stop overshot_losses = 0.026"
    by (simp_all add: recommended_stop_def tight_facts overshot_facts)
  have h1: "list_all plain_loss (loss_trades tight_losses)
      \<and> change_off_threshold (loss_trades tight_losses) (optimal_stop_pct fed_dovish)"
    by (simp add: tight_claimed change_off_threshold_def r s)
  have g1: "claimed_stop_gate (loss_trades tight_losses) (optimal_stop_pct fed_dovish)"
    by (simp add: claimed_stop_gate_def mostly_within_half_point_def loss_confidence_def
        tight_claimed tight_facts r s)
  have h2: "list_all plain_loss (loss_trades overshot_losses)
      \<and> change_off_threshold (loss_trades overshot_losses) (optimal_stop_pct fed_dovish)"
    by (simp add: overshot_facts change_off_threshold_def r s)
  have g2: "\<not> claimed_stop_gate (loss_trades overshot_losses) (optimal_stop_pct fed_dovish)"
    by (simp add: claimed_stop_gate_def mostly_within_half_point_def overshot_facts)
  have c: "loss_confidence (loss_trades (take 7 tight_losses)) \<le> 0.7"
    by (simp add: loss_confidence_def tight_claimed tight_facts)
  show ?thesis
    using stop_mutated_iff_gate[of tight_losses fed_dovish]
      stop_mutated_iff_gate[of overshot_losses fed_dovish]
      stop_mutated_iff_gate[of "take 7 tight_losses" fed_dovish] h1 g1 h2 g2 c
    by simp
qed


text \<open>
  Claim C8 as stated fails when the recommended value is zero: on eight losses with planned stop
  distance 0 every loss is within half a point of the stop, the confidence is 0.8 and the
  recommended stop 0 differs from the current 2 percent by more than 0.5 percentage points, but
  the guard \<open>stop_analysis['optimal_stop'] and ...\<close> is false on 0 and the stop stays.
\<close>

theorem zero_stop_recommendation_not_applied:
  "mostly_within_half_point (loss_trades zero_stop_losses)
   \<and> loss_confidence (loss_trades zero_stop_losses) > 0.7
   \<and> \<bar>recommended_stop (loss_trades zero_stop_losses) - optimal_stop_pct fed_dovish\<bar> > 0.005
   \<and> optimal_stop_pct (fst (learn_steps zero_stop_losses fed_dovish)) = optimal_stop_pct fed_dovish"
proof -
  have s: "optimal_stop_pct fed_dovish = 0.02"
    by (simp add: fed_dovish_def new_pattern_def)
  have r: "recommended_stop zero_stop_losses = 0"
    by (simp add: recommended_stop_def zero_stop_facts)
  show ?thesis
    by (simp add: learn_steps_stop stop_gate_def mostly_within_half_point_def loss_confidence_def
        zero_stop_facts zero_stop_claimed r s)
qed


lemma short_facts:
  "stop_losses short_losses = short_losses"
  "loss_trades short_losses = short_losses"
  "filter within_half_point short_losses = []"
  "tight_stops short_losses = short_losses"
  "length short_losses = 8"
  "mean (map planned_stop short_losses) = 0.02"
  by (simp_all add: short_losses_def stop_example_defs)

text \<open>The one-sided test of \<open>_analyze_stops\<close> at losses closed 1.5 points short of the stop.\<close>

lemma one_sided_test_counts_short_losses:
  "\<not> mostly_within_half_point (loss_trades short_losses)
   \<and> optimal_stop_pct (fst (learn_steps short_losses fed_dovish)) > optimal_stop_pct fed_dovish + 0.005"
proof -
  have s: "optimal_stop_pct fed_dovish = 0.02"
    by (simp add: fed_dovish_def new_pattern_def)
  have r: "recommended_stop short_losses = 0.026"
    by (simp add: recommended_stop_def short_facts)
  show ?thesis
    by (simp add: learn_steps_stop stop_gate_def widening_fires_def loss_confidence_def
        mostly_within_half_point_def short_facts r s)
qed



section \<open>Interleaved resolutions of one pattern\<close>

lemma update_counters_fields:
  "outcome t = WIN \<Longrightarrow> total_trades (update_counters p t) = total_trades p + 1"
  "outcome t = WIN \<Longrightarrow> wins (update_counters p t) = wins p + 1"
  "outcome t = WIN \<Longrightarrow> losses (update_counters p t) = losses p"
  "outcome t = WIN \<Longrightarrow> scratches (update_counters p t) = scratches p"
  "name (update_counters p t) = name p"
  by (simp_all add: update_counters_def Let_def)

lemma resolved_facts:
  "outcome resolved_a = WIN" "outcome resolved_b = WIN"
  "pattern_name resolved_a = ''fed_dovish''" "pattern_name resolved_b = ''fed_dovish''"
  "name fed_dovish = ''fed_dovish''" "total_trades fed_dovish = 0" "wins fed_dovish = 0"
  "losses fed_dovish = 0" "scratches fed_dovish = 0"
  by (simp_all add: resolved_a_def resolved_b_def closed_trade_def pending_trade_def fed_dovish_def
      new_pattern_def)

lemma store_one:
  "name p = n \<Longrightarrow> get_pattern [p] n = Some p"
  "name p = name q \<Longrightarrow> save_pattern [p] q = [q]"
  by (simp_all add: get_pattern_def save_pattern_def)

text \<open>
  Claim C9 at a failing schedule. Two winning trades of \<open>fed_dovish\<close>, whose counters are
  (0, 0, 0, 0), are resolved by two calls. When both calls load the pattern before either saves
  it, the second save overwrites the first and the persisted counters are (1, 1, 0, 0); either
  sequential order of the two calls gives (2, 2, 0, 0).
\<close>

theorem interleaved_resolutions_lose_update:
  "map counters (run_schedule resolved_a resolved_b [fed_dovish]
      [LoadPattern WorkerA, LoadPattern WorkerB, SavePattern WorkerA, SavePattern WorkerB]) = [(1, 1, 0, 0)]
   \<and> map counters (run_schedule resolved_a resolved_b [fed_dovish]
      [LoadPattern WorkerA, SavePattern WorkerA, LoadPattern WorkerB, SavePattern WorkerB]) = [(2, 2, 0, 0)]
   \<and> map counters (run_schedule resolved_a resolved_b [fed_dovish]
      [LoadPattern WorkerB, SavePattern WorkerB, LoadPattern WorkerA, SavePattern WorkerA]) = [(2, 2, 0, 0)]"
  by (simp add: run_schedule_def resolved_facts store_one update_counters_fields counters_def)

end
